theory Spec2Isabelle
  imports Complex_Main
begin

section \<open>Python values shared by both modules\<close>

text \<open>
  Exceptions of the two modules are values of one datatype; a function that can raise
  returns \<open>error + 'a\<close> with \<open>Inl\<close> for the exception.  \<open>APIError\<close> is the
  exception class declared in \<^verbatim>\<open>transport/cache.py\<close>; the others are Python and
  library exceptions raised by the calls the code makes.
\<close>

datatype error =
    APIError string
  | AssertionError
  | TypeError
  | ValueError
  | IndexingError
  | FileNotFoundError
  | FileExistsError
  | NotADirectoryError
  | IsADirectoryError
  | ConnectionError
  | JSONDecodeError
  | DownloadError string

text \<open>
  The built-in collection types the code tells apart with \<^verbatim>\<open>type(x) in (list, set)\<close>.
  Only emptiness and membership of the elements are ever used, so the elements of a set
  are kept as a list too.
\<close>

datatype 'a collection = PyList "'a list" | PySet "'a list" | PyTuple "'a list"

fun items :: "'a collection \<Rightarrow> 'a list" where
  "items (PyList xs) = xs"
| "items (PySet xs) = xs"
| "items (PyTuple xs) = xs"

fun is_list_or_set :: "'a collection \<Rightarrow> bool" where
  "is_list_or_set (PyList xs) = True"
| "is_list_or_set (PySet xs) = True"
| "is_list_or_set (PyTuple xs) = False"

text \<open>Truth value of a built-in collection: it is true when it is not empty.\<close>

definition truthy :: "'a collection \<Rightarrow> bool" where
  "truthy c = (items c \<noteq> [])"

section \<open>Pair table (\<^verbatim>\<open>utils/token_filter.py\<close>)\<close>

text \<open>
  A row of the pairs DataFrame, with the columns the filters read.  Symbols and addresses
  are strings; the fee is the integer the dataset stores.  A DataFrame is the list of its
  rows, each with its index label: boolean indexing keeps labels, and one step of
  \<open>filter_pairs_default\<close> aligns a mask of one frame with another frame by label.
\<close>

record pair_row =
  pair_id :: int
  chain_id :: int
  exchange_id :: int
  exchange_slug :: string
  token0_symbol :: string
  token1_symbol :: string
  token0_address :: string
  token1_address :: string
  base_token_symbol :: string
  quote_token_symbol :: string
  fee :: int

type_synonym dataframe = "(int \<times> pair_row) list"

text \<open>
  Names the module imports from files that are not part of the sources at hand: the
  stablecoin list of \<^verbatim>\<open>tradingstrategy.stablecoin\<close>, Python's Unicode-aware
  \<^verbatim>\<open>str.upper\<close> and \<^verbatim>\<open>str.lower\<close>, and the truth value of a \<^verbatim>\<open>ChainId\<close>
  member (an enum of \<^verbatim>\<open>tradingstrategy.chain\<close>).  They are parameters of the model.
\<close>

datatype chain = ChainId (chain_value: int) (get_slug: string)

record externals =
  ALL_STABLECOIN_LIKE :: "string list"
  str_upper :: "string \<Rightarrow> string"
  str_lower :: "string \<Rightarrow> string"
  chain_bool :: "chain \<Rightarrow> bool"

definition DERIVATIVE_TOKEN_PREFIXES :: "string list" where
  "DERIVATIVE_TOKEN_PREFIXES = [''wst'', ''os'', ''3Crv'', ''gOHM'', ''st'', ''bl'', ''ETH2x'']"

definition REBASE_TOKENS :: "string list" where
  "REBASE_TOKENS = [''OHM'', ''KLIMA'']"

definition DEFAULT_GOOD_QUOTE_TOKENS :: "string collection" where
  "DEFAULT_GOOD_QUOTE_TOKENS =
     PyTuple [''USDC'', ''USDT'', ''WETH'', ''WMATIC'', ''WAVAX'', ''WBNB'', ''WARB'']"

definition startswith :: "string \<Rightarrow> string \<Rightarrow> bool" where
  "startswith s p = (take (length p) s = p)"

definition is_derivative :: "string \<Rightarrow> bool" where
  "is_derivative token_symbol =
     list_ex (\<lambda>p. startswith token_symbol p) DERIVATIVE_TOKEN_PREFIXES"

definition is_rebase :: "externals \<Rightarrow> string \<Rightarrow> bool" where
  "is_rebase ext token_symbol = (str_upper ext token_symbol \<in> set REBASE_TOKENS)"

text \<open>\<^verbatim>\<open>pairs.loc[mask]\<close> and \<^verbatim>\<open>pairs[mask]\<close> with a mask computed from the same frame.\<close>

definition loc_rows :: "(pair_row \<Rightarrow> bool) \<Rightarrow> dataframe \<Rightarrow> dataframe" where
  "loc_rows keep pairs = filter (\<lambda>lr. keep (snd lr)) pairs"

datatype StablecoinFilteringMode = only_stablecoin_pairs | only_volatile_pairs | all_pairs

definition both_stablecoin_like :: "externals \<Rightarrow> pair_row \<Rightarrow> bool" where
  "both_stablecoin_like ext r =
     (token0_symbol r \<in> set (ALL_STABLECOIN_LIKE ext) \<and>
      token1_symbol r \<in> set (ALL_STABLECOIN_LIKE ext))"

fun filter_for_stablecoins ::
  "externals \<Rightarrow> dataframe \<Rightarrow> StablecoinFilteringMode \<Rightarrow> dataframe" where
  "filter_for_stablecoins ext pairs all_pairs = pairs"
| "filter_for_stablecoins ext pairs only_stablecoin_pairs =
     loc_rows (\<lambda>r. both_stablecoin_like ext r) pairs"
| "filter_for_stablecoins ext pairs only_volatile_pairs =
     loc_rows (\<lambda>r. \<not> both_stablecoin_like ext r) pairs"

definition filter_for_derivatives :: "dataframe \<Rightarrow> bool \<Rightarrow> dataframe" where
  "filter_for_derivatives pairs derivatives =
     loc_rows (\<lambda>row.
        if derivatives then is_derivative (token0_symbol row) \<or> is_derivative (token1_symbol row)
        else (\<not> is_derivative (token0_symbol row)) \<and> (\<not> is_derivative (token1_symbol row)))
      pairs"

definition filter_for_rebases :: "externals \<Rightarrow> dataframe \<Rightarrow> bool \<Rightarrow> dataframe" where
  "filter_for_rebases ext pairs rebase =
     loc_rows (\<lambda>row.
        if rebase then is_rebase ext (token0_symbol row) \<or> is_rebase ext (token1_symbol row)
        else (\<not> is_rebase ext (token0_symbol row)) \<and> (\<not> is_rebase ext (token1_symbol row)))
      pairs"

definition filter_for_chain :: "dataframe \<Rightarrow> chain \<Rightarrow> dataframe" where
  "filter_for_chain pairs c = loc_rows (\<lambda>r. chain_id r = chain_value c) pairs"

text \<open>An \<^verbatim>\<open>Exchange\<close> object (class of \<^verbatim>\<open>tradingstrategy.exchange\<close>): only its primary key is read.\<close>

datatype exchange = Exchange (exchange_pk: int)

definition filter_for_exchanges :: "dataframe \<Rightarrow> exchange collection \<Rightarrow> dataframe" where
  "filter_for_exchanges pairs exchanges =
     (let exchange_ids = map exchange_pk (items exchanges)
      in loc_rows (\<lambda>r. exchange_id r \<in> set exchange_ids) pairs)"

definition filter_for_exchange_ids :: "dataframe \<Rightarrow> int collection \<Rightarrow> dataframe" where
  "filter_for_exchange_ids pairs exchange_ids =
     loc_rows (\<lambda>r. exchange_id r \<in> set (items exchange_ids)) pairs"

text \<open>
  Python floats.  A finite float is a double: a rational it denotes exactly, and the
  model keeps that rational.  Arithmetic on floats computes the exact result and
  rounds it to the nearest double, ties to the even significand (IEEE 754 binary64, 53
  bits, exponents from -1022, subnormal numbers included; results beyond the largest
  double are not modelled).  \<open>bit_length n\<close> is the number of binary digits of \<open>n\<close>,
  \<open>floor_log2 a\<close> the exponent of the power of two at or below \<open>a > 0\<close>.
\<close>

fun bit_length :: "nat \<Rightarrow> nat" where
  "bit_length n = (if n = 0 then 0 else Suc (bit_length (n div 2)))"

declare bit_length.simps [simp del]

definition floor_log2 :: "rat \<Rightarrow> int" where
  "floor_log2 a =
     (if 1 \<le> a then int (bit_length (nat \<lfloor>a\<rfloor>)) - 1
      else - int (bit_length (nat (\<lceil>1 / a\<rceil> - 1))))"

definition pow2 :: "int \<Rightarrow> rat" where
  "pow2 e = (if 0 \<le> e then 2 ^ nat e else 1 / 2 ^ nat (- e))"

definition round_half_even :: "rat \<Rightarrow> int" where
  "round_half_even r =
     (let n = \<lfloor>r\<rfloor>; d = r - of_int n
      in if d < 1 / 2 then n else if 1 / 2 < d then n + 1 else if even n then n else n + 1)"

definition round_double :: "rat \<Rightarrow> rat" where
  "round_double x =
     (if x = 0 then 0
      else let a = \<bar>x\<bar>;
               e = max (floor_log2 a) (- 1022);
               q = pow2 (e - 52)
           in sgn x * of_int (round_half_even (a / q)) * q)"

text \<open>The doubles are the rationals that rounding leaves alone.\<close>

definition is_double :: "rat \<Rightarrow> bool" where
  "is_double x = (round_double x = x)"

text \<open>\<^verbatim>\<open>x * y\<close> on floats, and the float a decimal literal denotes.\<close>

definition float_mul :: "rat \<Rightarrow> rat \<Rightarrow> rat" where
  "float_mul x y = round_double (x * y)"

definition float_literal :: "rat \<Rightarrow> rat" where
  "float_literal x = round_double x"

text \<open>
  \<^verbatim>\<open>int(x)\<close> truncates towards zero.  In \<open>filter_for_trading_fee\<close> the integer
  \<^verbatim>\<open>10_000\<close> is converted to the float it equals and the product is rounded, so
  \<^verbatim>\<open>int(0.0003 * 10_000)\<close> is 2.
\<close>

definition py_int :: "rat \<Rightarrow> int" where
  "py_int x = (if 0 \<le> x then \<lfloor>x\<rfloor> else \<lceil>x\<rceil>)"

definition filter_for_trading_fee :: "dataframe \<Rightarrow> rat \<Rightarrow> error + dataframe" where
  "filter_for_trading_fee pairs fee_arg =
     (if \<not> (0 < fee_arg \<and> fee_arg < 1) then Inl AssertionError
      else let int_fee = py_int (float_mul fee_arg 10000)
           in Inr (loc_rows (\<lambda>r. fee r = int_fee) pairs))"

definition filter_for_blacklisted_tokens ::
  "externals \<Rightarrow> dataframe \<Rightarrow> string collection \<Rightarrow> error + dataframe" where
  "filter_for_blacklisted_tokens ext pairs blacklisted_tokens =
     (if \<not> is_list_or_set blacklisted_tokens then Inl AssertionError
      else let blacklisted = map (str_lower ext) (items blacklisted_tokens)
           in Inr (loc_rows (\<lambda>r. \<not> (token0_address r \<in> set blacklisted
                                      \<or> str_lower ext (token0_symbol r) \<in> set blacklisted
                                      \<or> token1_address r \<in> set blacklisted
                                      \<or> str_lower ext (token1_symbol r) \<in> set blacklisted))
                     pairs))"

text \<open>
  A symbol is kept as its UTF-8 bytes: a code point above 127 is encoded with bytes that
  are all above 127, so \<^verbatim>\<open>any(ord(char) > 127 for char in text)\<close> is the same test on
  the bytes.
\<close>

definition has_non_ascii :: "string \<Rightarrow> bool" where
  "has_non_ascii text = list_ex (\<lambda>c. (of_char c :: nat) > 127) text"

definition filter_for_nonascii_tokens :: "dataframe \<Rightarrow> dataframe" where
  "filter_for_nonascii_tokens pairs =
     loc_rows (\<lambda>row. \<not> (has_non_ascii (token0_symbol row) \<or> has_non_ascii (token1_symbol row)))
       pairs"

subsection \<open>Boolean indexing with the mask of another frame\<close>

text \<open>
  \<^verbatim>\<open>df.loc[mask]\<close> where \<open>mask\<close> is a boolean Series with its own index.  When the two
  indexes are equal the mask is applied by position.  Otherwise pandas aligns the mask
  to the frame's index by label and raises \<^verbatim>\<open>IndexingError\<close> when a label of the
  frame has no entry in the mask.  Alignment is modelled for a mask with a unique index,
  which is what the pair dataset has.
\<close>

type_synonym bool_series = "(int \<times> bool) list"

definition loc_mask :: "dataframe \<Rightarrow> bool_series \<Rightarrow> error + dataframe" where
  "loc_mask df msk =
     (if map fst msk = map fst df then Inr (map fst (filter snd (zip df (map snd msk))))
      else if list_ex (\<lambda>l. map_of msk l = None) (map fst df) then Inl IndexingError
      else Inr (filter (\<lambda>lr. map_of msk (fst lr) = Some True) df))"

subsection \<open>The injected print callback\<close>

text \<open>
  \<open>verbose_print\<close> is a parameter of \<open>filter_pairs_default\<close>; what the pipeline does
  with it is the sequence of calls it makes, each with a message and a row count.  A
  computation takes the calls made so far and returns its outcome with the calls made
  until it returned or raised.
\<close>

type_synonym print_call = "string \<times> nat"
type_synonym 'a printing = "print_call list \<Rightarrow> (error + 'a) \<times> print_call list"

definition return :: "'a \<Rightarrow> 'a printing" where
  "return x calls = (Inr x, calls)"

definition raise :: "error \<Rightarrow> 'a printing" where
  "raise e calls = (Inl e, calls)"

definition bind :: "'a printing \<Rightarrow> ('a \<Rightarrow> 'b printing) \<Rightarrow> 'b printing" where
  "bind m f calls = (case m calls of (Inl e, calls') \<Rightarrow> (Inl e, calls')
                                   | (Inr x, calls') \<Rightarrow> f x calls')"

definition lift :: "error + 'a \<Rightarrow> 'a printing" where
  "lift r = (case r of Inl e \<Rightarrow> raise e | Inr x \<Rightarrow> return x)"

definition verbose_print :: "string \<Rightarrow> nat \<Rightarrow> unit printing" where
  "verbose_print msg n calls = (Inr (), calls @ [(msg, n)])"

subsection \<open>Truth values of the optional arguments\<close>

text \<open>
  \<^verbatim>\<open>pair_ids_in_candles\<close> is annotated \<^verbatim>\<open>Collection[PrimaryKey] | pd.Series | None\<close>.
  The truth value of a pandas Series is not defined: \<^verbatim>\<open>bool(series)\<close> raises
  \<^verbatim>\<open>ValueError\<close>.
\<close>

datatype id_source = IdCollection "int collection" | IdSeries "int list"

fun id_values :: "id_source \<Rightarrow> int list" where
  "id_values (IdCollection c) = items c"
| "id_values (IdSeries xs) = xs"

fun id_source_bool :: "id_source option \<Rightarrow> error + bool" where
  "id_source_bool None = Inr False"
| "id_source_bool (Some (IdCollection c)) = Inr (truthy c)"
| "id_source_bool (Some (IdSeries xs)) = Inl ValueError"

fun int_bool :: "int option \<Rightarrow> bool" where
  "int_bool None = False"
| "int_bool (Some n) = (n \<noteq> 0)"

fun collection_bool :: "'a collection option \<Rightarrow> bool" where
  "collection_bool None = False"
| "collection_bool (Some c) = truthy c"

fun chain_id_bool :: "externals \<Rightarrow> chain option \<Rightarrow> bool" where
  "chain_id_bool ext None = False"
| "chain_id_bool ext (Some c) = chain_bool ext c"

subsection \<open>\<open>filter_pairs_default\<close>\<close>

definition filter_pairs_default ::
  "externals \<Rightarrow> dataframe \<Rightarrow> int option \<Rightarrow> string collection option \<Rightarrow> string collection
   \<Rightarrow> exchange collection option \<Rightarrow> int collection option \<Rightarrow> id_source option
   \<Rightarrow> chain option \<Rightarrow> dataframe printing" where
  "filter_pairs_default ext pairs_df max_trading_pair_fee_bps blacklisted_token_symbols
      good_quote_tokes exchanges exchange_ids pair_ids_in_candles chain_id_param =
   bind (verbose_print ''Pairs in the input dataset'' (length pairs_df)) (\<lambda>_.
   bind (if chain_id_bool ext chain_id_param then
           (let df = filter_for_chain pairs_df (the chain_id_param)
            in bind (verbose_print (''Pairs on chain '' @ get_slug (the chain_id_param)) (length df))
                 (\<lambda>_. return df))
         else return pairs_df) (\<lambda>df1.
   bind (if int_bool max_trading_pair_fee_bps then
           bind (lift (loc_mask df1
                   (map (\<lambda>lr. (fst lr, fee (snd lr) \<le> the max_trading_pair_fee_bps)) pairs_df)))
             (\<lambda>df. bind (verbose_print ''Pairs having a good fee'' (length df)) (\<lambda>_. return df))
         else return df1) (\<lambda>df2.
   bind (bind (lift (id_source_bool pair_ids_in_candles)) (\<lambda>b.
           if b then
             (let df = loc_rows (\<lambda>r. pair_id r \<in> set (id_values (the pair_ids_in_candles))) df2
              in bind (verbose_print ''Pairs with candle data'' (length df)) (\<lambda>_. return df))
           else return df2)) (\<lambda>df3.
   bind (if collection_bool exchanges then
           (let df = filter_for_exchanges df3 (the exchanges)
            in bind (verbose_print ''Pairs matching exchange'' (length df)) (\<lambda>_. return df))
         else return df3) (\<lambda>df4.
   bind (if collection_bool exchange_ids then
           (let df = filter_for_exchange_ids df4 (the exchange_ids)
            in bind (verbose_print ''Pairs matching exchange'' (length df)) (\<lambda>_. return df))
         else return df4) (\<lambda>df5.
   bind (return (filter_for_stablecoins ext df5 only_volatile_pairs)) (\<lambda>df6.
   bind (verbose_print ''Pairs that are not stable-stable'' (length df6)) (\<lambda>_.
   bind (return (filter_for_derivatives df6 False)) (\<lambda>df7.
   bind (verbose_print ''Pairs that are not derivative tokens'' (length df7)) (\<lambda>_.
   bind (return (filter_for_rebases ext df7 False)) (\<lambda>df8.
   bind (verbose_print ''Pairs that are not rebase tokens'' (length df8)) (\<lambda>_.
   bind (return (loc_rows (\<lambda>r. quote_token_symbol r \<in> set (items good_quote_tokes)) df8))
     (\<lambda>df9.
   bind (verbose_print ''Pairs with good quote token'' (length df9)) (\<lambda>_.
   bind (if collection_bool blacklisted_token_symbols then
           bind (lift (filter_for_blacklisted_tokens ext df9 (the blacklisted_token_symbols)))
             (\<lambda>df. bind (verbose_print ''Pairs without blacklisted base token'' (length df))
                     (\<lambda>_. return df))
         else return df9) (\<lambda>df10.
   bind (return (filter_for_nonascii_tokens df10)) (\<lambda>df11.
   bind (verbose_print ''Pairs with clean ASCII token name'' (length df11)) (\<lambda>_.
   return df11)))))))))))))))))"

text \<open>ASCII instances of the two case mappings, for evaluating concrete inputs.\<close>

definition ascii_upper :: "string \<Rightarrow> string" where
  "ascii_upper s =
     map (\<lambda>c. case map_of (zip ''abcdefghijklmnopqrstuvwxyz'' ''ABCDEFGHIJKLMNOPQRSTUVWXYZ'') c of
                 Some u \<Rightarrow> u | None \<Rightarrow> c) s"

definition ascii_lower :: "string \<Rightarrow> string" where
  "ascii_lower s =
     map (\<lambda>c. case map_of (zip ''ABCDEFGHIJKLMNOPQRSTUVWXYZ'' ''abcdefghijklmnopqrstuvwxyz'') c of
                 Some u \<Rightarrow> u | None \<Rightarrow> c) s"

definition ext0 :: externals where
  "ext0 = \<lparr>ALL_STABLECOIN_LIKE = [''USDC'', ''USDT'', ''DAI''],
           str_upper = ascii_upper, str_lower = ascii_lower,
           chain_bool = (\<lambda>c. chain_value c \<noteq> 0)\<rparr>"

definition mk_row :: "int \<Rightarrow> string \<Rightarrow> string \<Rightarrow> int \<Rightarrow> pair_row" where
  "mk_row pid base quote f =
     \<lparr>pair_id = pid, chain_id = 1, exchange_id = 1, exchange_slug = ''uniswap-v2'',
      token0_symbol = base, token1_symbol = quote,
      token0_address = ''0x'' @ base, token1_address = ''0x'' @ quote,
      base_token_symbol = base, quote_token_symbol = quote, fee = f\<rparr>"

definition table0 :: dataframe where
  "table0 = [(0, mk_row 1 ''WETH'' ''USDC'' 5), (1, mk_row 2 ''SHIB'' ''USDC'' 100),
             (2, mk_row 3 ''USDC'' ''USDT'' 1), (3, mk_row 4 ''stETH'' ''WETH'' 30),
             (4, mk_row 5 ''ohm'' ''WETH'' 30)]"

subsection \<open>The default pipeline as the specification lists it\<close>

text \<open>
  A step is the message it reports and the rows it keeps.  Running a list of steps
  narrows the frame step by step, each step working on the result of the one before,
  and reports the row count after each step.  The eleven steps of the specification, in
  its order; an optional step is in the list when its argument is given and true in the
  sense of Python (not \<open>None\<close>, not 0, not empty).
\<close>

type_synonym step = "string \<times> (pair_row \<Rightarrow> bool)"

fun run_steps :: "step list \<Rightarrow> dataframe \<Rightarrow> print_call list \<Rightarrow> dataframe \<times> print_call list" where
  "run_steps [] df calls = (df, calls)"
| "run_steps (s # ss) df calls =
     (let df' = loc_rows (snd s) df in run_steps ss df' (calls @ [(fst s, length df')]))"

definition when_requested :: "bool \<Rightarrow> step \<Rightarrow> step list" where
  "when_requested b s = (if b then [s] else [])"

text \<open>Steps 1 and 2: chain, fee at most the maximum.\<close>

definition chain_and_fee_steps :: "externals \<Rightarrow> int option \<Rightarrow> chain option \<Rightarrow> step list" where
  "chain_and_fee_steps ext max_fee chain_opt =
     when_requested (chain_id_bool ext chain_opt)
       (''Pairs on chain '' @ get_slug (the chain_opt),
        \<lambda>r. chain_id r = chain_value (the chain_opt))
   @ when_requested (int_bool max_fee)
       (''Pairs having a good fee'', \<lambda>r. fee r \<le> the max_fee)"

text \<open>
  Steps 3 to 9: candle presence, exchange by object, exchange by id, then the steps
  that always run: not stablecoin to stablecoin, no derivative leg, no rebase leg, quote
  token in the allow-set.
\<close>

definition narrowing_steps ::
  "externals \<Rightarrow> string collection \<Rightarrow> exchange collection option \<Rightarrow> int collection option
   \<Rightarrow> id_source option \<Rightarrow> step list" where
  "narrowing_steps ext good_quote exchanges exchange_ids candle_ids =
     when_requested (id_source_bool candle_ids = Inr True)
       (''Pairs with candle data'', \<lambda>r. pair_id r \<in> set (id_values (the candle_ids)))
   @ when_requested (collection_bool exchanges)
       (''Pairs matching exchange'',
        \<lambda>r. exchange_id r \<in> exchange_pk ` set (items (the exchanges)))
   @ when_requested (collection_bool exchange_ids)
       (''Pairs matching exchange'', \<lambda>r. exchange_id r \<in> set (items (the exchange_ids)))
   @ [(''Pairs that are not stable-stable'', \<lambda>r. \<not> both_stablecoin_like ext r),
      (''Pairs that are not derivative tokens'',
       \<lambda>r. \<not> (is_derivative (token0_symbol r) \<or> is_derivative (token1_symbol r))),
      (''Pairs that are not rebase tokens'',
       \<lambda>r. \<not> (is_rebase ext (token0_symbol r) \<or> is_rebase ext (token1_symbol r))),
      (''Pairs with good quote token'', \<lambda>r. quote_token_symbol r \<in> set (items good_quote))]"

text \<open>Steps 10 and 11: blacklist, no symbol with a character outside ASCII.\<close>

definition closing_steps :: "externals \<Rightarrow> string collection option \<Rightarrow> step list" where
  "closing_steps ext blacklist =
     when_requested (collection_bool blacklist)
       (''Pairs without blacklisted base token'',
        \<lambda>r. list_all (\<lambda>x. x \<notin> set (map (str_lower ext) (items (the blacklist))))
               [token0_address r, str_lower ext (token0_symbol r),
                token1_address r, str_lower ext (token1_symbol r)])
   @ [(''Pairs with clean ASCII token name'',
       \<lambda>r. \<not> (has_non_ascii (token0_symbol r) \<or> has_non_ascii (token1_symbol r)))]"

definition default_steps ::
  "externals \<Rightarrow> int option \<Rightarrow> string collection option \<Rightarrow> string collection
   \<Rightarrow> exchange collection option \<Rightarrow> int collection option \<Rightarrow> id_source option
   \<Rightarrow> chain option \<Rightarrow> step list" where
  "default_steps ext max_fee blacklist good_quote exchanges exchange_ids candle_ids chain_opt =
     chain_and_fee_steps ext max_fee chain_opt
   @ narrowing_steps ext good_quote exchanges exchange_ids candle_ids
   @ closing_steps ext blacklist"

text \<open>Running steps as a printing computation that cannot raise.\<close>

definition run_m :: "step list \<Rightarrow> dataframe \<Rightarrow> dataframe printing" where
  "run_m steps df calls = (case run_steps steps df calls of (d, c) \<Rightarrow> (Inr d, c))"

text \<open>The same table with every row changed by \<open>h\<close>, labels kept.\<close>

definition relabel :: "(pair_row \<Rightarrow> pair_row) \<Rightarrow> dataframe \<Rightarrow> dataframe" where
  "relabel h df = map (\<lambda>lr. (fst lr, h (snd lr))) df"

section \<open>Cached HTTP transport (\<^verbatim>\<open>transport/cache.py\<close>)\<close>

subsection \<open>Files, clock and POSIX paths\<close>

text \<open>
  The file system maps a path to a regular file (modification time, bytes) or to a
  directory (modification time).  Times are integers, in the clock's smallest unit; a
  \<^verbatim>\<open>timedelta\<close> is an integer of the same unit.  \<open>clock\<close> is what
  \<^verbatim>\<open>datetime.datetime.now()\<close> returns and \<open>cwd\<close> what \<^verbatim>\<open>os.getcwd()\<close> returns.
\<close>

type_synonym path = string

datatype node = File (mtime: int) (content: string) | Dir (mtime: int)

record world =
  files :: "path \<rightharpoonup> node"
  cwd :: path
  clock :: int

definition sep :: char where
  "sep = CHR ''/''"

fun isabs :: "path \<Rightarrow> bool" where
  "isabs [] = False"
| "isabs (c # cs) = (c = sep)"

text \<open>\<^verbatim>\<open>os.path.join(a, b)\<close>: an absolute second component discards the first.\<close>

definition path_join :: "path \<Rightarrow> path \<Rightarrow> path" where
  "path_join a b =
     (if isabs b then b
      else if a = [] \<or> last a = sep then a @ b
      else a @ [sep] @ b)"

text \<open>\<^verbatim>\<open>str.split('/')\<close> and \<^verbatim>\<open>'/'.join(comps)\<close>.\<close>

fun split_sep :: "string \<Rightarrow> string list" where
  "split_sep [] = [[]]"
| "split_sep (c # cs) =
     (if c = sep then [] # split_sep cs
      else (case split_sep cs of [] \<Rightarrow> [[c]] | part # parts \<Rightarrow> (c # part) # parts))"

fun join_sep :: "string list \<Rightarrow> string" where
  "join_sep [] = []"
| "join_sep [part] = part"
| "join_sep (part # parts) = part @ [sep] @ join_sep parts"

text \<open>
  \<^verbatim>\<open>posixpath.normpath\<close>: the loop over the components keeps \<open>new_comps\<close>, and one
  or two leading slashes are kept (three or more count as one).
\<close>

fun norm_comps :: "string list \<Rightarrow> nat \<Rightarrow> string list \<Rightarrow> string list" where
  "norm_comps new_comps initial_slashes [] = new_comps"
| "norm_comps new_comps initial_slashes (part # parts) =
     (if part = [] \<or> part = ''.'' then norm_comps new_comps initial_slashes parts
      else if part \<noteq> ''..'' \<or> (initial_slashes = 0 \<and> new_comps = [])
              \<or> (new_comps \<noteq> [] \<and> last new_comps = ''..'')
      then norm_comps (new_comps @ [part]) initial_slashes parts
      else if new_comps \<noteq> [] then norm_comps (butlast new_comps) initial_slashes parts
      else norm_comps new_comps initial_slashes parts)"

definition normpath :: "path \<Rightarrow> path" where
  "normpath p =
     (if p = [] then ''.''
      else let initial_slashes =
                 (if isabs p then
                    (if take 2 p = [sep, sep] \<and> take 3 p \<noteq> [sep, sep, sep] then 2 else 1)
                  else (0::nat));
               joined = join_sep (norm_comps [] initial_slashes (split_sep p));
               result = replicate initial_slashes sep @ joined
           in if result = [] then ''.'' else result)"

definition abspath :: "world \<Rightarrow> path \<Rightarrow> path" where
  "abspath w p = normpath (if isabs p then p else path_join (cwd w) p)"

definition exists_path :: "world \<Rightarrow> path \<Rightarrow> bool" where
  "exists_path w p = (files w p \<noteq> None)"

text \<open>
  \<^verbatim>\<open>os.makedirs(p, exist_ok=True)\<close> on a normalised path: every missing directory on
  the way to \<open>p\<close> and \<open>p\<close> itself are created; a regular file in the way raises.
\<close>

definition dirs_to :: "path \<Rightarrow> path list" where
  "dirs_to p = [take i p. i \<leftarrow> [1..<length p], p ! i = sep] @ [p]"

fun mkdirs :: "path \<Rightarrow> path list \<Rightarrow> world \<Rightarrow> error + world" where
  "mkdirs p [] w = Inr w"
| "mkdirs p (q # qs) w =
     (case files w q of
        None \<Rightarrow> mkdirs p qs (w\<lparr>files := (files w)(q \<mapsto> Dir (clock w))\<rparr>)
      | Some (Dir m) \<Rightarrow> mkdirs p qs w
      | Some (File m c) \<Rightarrow> Inl (if q = p then FileExistsError else NotADirectoryError))"

definition makedirs :: "path \<Rightarrow> world \<Rightarrow> error + world" where
  "makedirs p w = mkdirs p (dirs_to p) w"

text \<open>
  \<^verbatim>\<open>shutil.rmtree(x)\<close>.  Its argument must be a path; the model keeps the two kinds of
  object the transport holds, so that a call can be written with either.
\<close>

datatype pyobj = PyPath path | PyTimedelta int

fun rmtree :: "pyobj \<Rightarrow> world \<Rightarrow> error + world" where
  "rmtree (PyTimedelta d) w = Inl TypeError"
| "rmtree (PyPath p) w =
     (case files w p of
        None \<Rightarrow> Inl FileNotFoundError
      | Some (File m c) \<Rightarrow> Inl NotADirectoryError
      | Some (Dir m) \<Rightarrow>
          Inr (w\<lparr>files := (\<lambda>q. if q = p \<or> startswith q (p @ [sep]) then None else files w q)\<rparr>))"

text \<open>
  \<^verbatim>\<open>pathlib.Path(path).stat().st_mtime\<close> of a path that exists, and
  \<^verbatim>\<open>open(path, "rb")\<close>, which returns a readable handle on the bytes of the file.
\<close>

definition st_mtime :: "world \<Rightarrow> path \<Rightarrow> int" where
  "st_mtime w p = mtime (the (files w p))"

datatype handle = Handle (handle_path: path) (handle_content: string)

definition open_rb :: "world \<Rightarrow> path \<Rightarrow> error + handle" where
  "open_rb w p =
     (case files w p of
        None \<Rightarrow> Inl FileNotFoundError
      | Some (Dir m) \<Rightarrow> Inl IsADirectoryError
      | Some (File m c) \<Rightarrow> Inr (Handle p c))"

subsection \<open>HTTP session\<close>

record response =
  status_code :: int
  response_text :: string

datatype param_value = PStr string | PInt int

type_synonym params = "(string \<times> param_value) list"

record request =
  req_method :: string
  req_url :: string
  req_params :: "params option"
  req_headers :: "(string \<times> string) list"

record session =
  headers :: "(string \<times> string) list"
  hooks :: "(string \<times> (response \<Rightarrow> error + unit)) list"

text \<open>The server answers a request, or the connection fails.\<close>

type_synonym server = "request \<Rightarrow> response option"

definition exception_hook :: "response \<Rightarrow> error + unit" where
  "exception_hook response =
     (if status_code response \<ge> 400 then Inl (APIError (response_text response)) else Inr ())"

text \<open>
  The session carries the \<^verbatim>\<open>Authorization\<close> header when an API key is given and not
  empty (the headers every new session has by default are left out), and its hooks are
  replaced by the one response hook.
\<close>

definition create_requests_client :: "string option \<Rightarrow> session" where
  "create_requests_client api_key =
     \<lparr>headers = (case api_key of None \<Rightarrow> []
                  | Some k \<Rightarrow> if k \<noteq> [] then [(''Authorization'', k)] else []),
      hooks = [(''response'', exception_hook)]\<rparr>"

text \<open>
  \<^verbatim>\<open>requests\<close> runs the hooks registered under \<^verbatim>\<open>"response"\<close> on every response
  the session receives, before the response reaches the caller.
\<close>

definition dispatch_hook ::
  "string \<Rightarrow> (string \<times> (response \<Rightarrow> error + unit)) list \<Rightarrow> response \<Rightarrow> error + response" where
  "dispatch_hook key hks r =
     (case map_of hks key of
        None \<Rightarrow> Inr r
      | Some hook \<Rightarrow> (case hook r of Inl e \<Rightarrow> Inl e | Inr u \<Rightarrow> Inr r))"

definition session_request ::
  "server \<Rightarrow> session \<Rightarrow> string \<Rightarrow> string \<Rightarrow> params option \<Rightarrow> error + response" where
  "session_request srv s verb url ps =
     (case srv \<lparr>req_method = verb, req_url = url, req_params = ps, req_headers = headers s\<rparr> of
        None \<Rightarrow> Inl ConnectionError
      | Some r \<Rightarrow> dispatch_hook ''response'' (hooks s) r)"

text \<open>\<^verbatim>\<open>response.json()\<close>, with the JSON parser as a parameter.\<close>

definition response_json :: "(string \<Rightarrow> 'j option) \<Rightarrow> response \<Rightarrow> error + 'j" where
  "response_json json_loads r =
     (case json_loads (response_text r) of None \<Rightarrow> Inl JSONDecodeError | Some v \<Rightarrow> Inr v)"

subsection \<open>\<open>CachedHTTPTransport\<close>\<close>

text \<open>
  The injected \<open>download_func\<close> receives the session, the local path, the URL and the
  query parameters.  It may write files and take time, and it returns or raises.
\<close>

type_synonym download =
  "session \<Rightarrow> path \<Rightarrow> string \<Rightarrow> params option \<Rightarrow> world \<Rightarrow> error option \<times> world"

record transport =
  download_func :: download
  endpoint :: string
  cache_period :: int
  cache_path :: path
  requests :: session

text \<open>Three days, with the microsecond as unit.\<close>

definition default_cache_period :: int where
  "default_cache_period = 3 * 24 * 3600 * 1000000"

text \<open>
  \<^verbatim>\<open>os.path.expanduser("~/.cache/trading-strategy")\<close>, for the home directory
  \<open>home\<close> of the user.
\<close>

definition default_cache_path :: "path \<Rightarrow> path" where
  "default_cache_path home =
     rev (dropWhile (\<lambda>c. c = sep) (rev home)) @ ''/.cache/trading-strategy''"

definition CachedHTTPTransport ::
  "path \<Rightarrow> download \<Rightarrow> string option \<Rightarrow> int \<Rightarrow> path option \<Rightarrow> string option \<Rightarrow> transport" where
  "CachedHTTPTransport home dl endpoint_arg cache_period_arg cache_path_arg api_key =
     \<lparr>download_func = dl,
      endpoint = (case endpoint_arg of
                    None \<Rightarrow> ''https://candlelightdinner.tradingstrategy.ai''
                  | Some e \<Rightarrow> if e \<noteq> [] then e
                             else ''https://candlelightdinner.tradingstrategy.ai''),
      cache_period = cache_period_arg,
      cache_path = (case cache_path_arg of
                      None \<Rightarrow> default_cache_path home
                    | Some p \<Rightarrow> if p \<noteq> [] then p else default_cache_path home),
      requests = create_requests_client api_key\<rparr>"

definition get_abs_cache_path :: "transport \<Rightarrow> world \<Rightarrow> path" where
  "get_abs_cache_path t w = abspath w (cache_path t)"

definition get_cached_file_path :: "transport \<Rightarrow> world \<Rightarrow> path \<Rightarrow> path" where
  "get_cached_file_path t w fname = path_join (get_abs_cache_path t w) fname"

definition get_cached_item :: "transport \<Rightarrow> world \<Rightarrow> path \<Rightarrow> error + handle option" where
  "get_cached_item t w fname =
     (let path = get_cached_file_path t w fname in
      if \<not> exists_path w path then Inr None
      else if clock w - st_mtime w path > cache_period t then Inr None
      else (case open_rb w path of Inl e \<Rightarrow> Inl e | Inr f \<Rightarrow> Inr (Some f)))"

definition purge_cache :: "transport \<Rightarrow> world \<Rightarrow> error + world" where
  "purge_cache t w = rmtree (PyTimedelta (cache_period t)) w"

text \<open>
  A run of the transport: the world, and the calls of \<open>download_func\<close> made so far, each
  with the path, the URL and the parameters it was given.
\<close>

type_synonym download_call = "path \<times> string \<times> params option"

record run =
  sys :: world
  download_calls :: "download_call list"

definition save_response ::
  "transport \<Rightarrow> path \<Rightarrow> string \<Rightarrow> params option \<Rightarrow> run \<Rightarrow> error option \<times> run" where
  "save_response t fpath api_path ps st =
     (case makedirs (get_abs_cache_path t (sys st)) (sys st) of
        Inl e \<Rightarrow> (Some e, st)
      | Inr w1 \<Rightarrow>
          (let url = endpoint t @ ''/'' @ api_path in
           case download_func t (requests t) fpath url ps w1 of
             (r, w2) \<Rightarrow>
               (r, \<lparr>sys = w2, download_calls = download_calls st @ [(fpath, url, ps)]\<rparr>)))"

definition get_json_response ::
  "server \<Rightarrow> (string \<Rightarrow> 'j option) \<Rightarrow> transport \<Rightarrow> string \<Rightarrow> params option \<Rightarrow> error + 'j" where
  "get_json_response srv json_loads t api_path ps =
     (let url = endpoint t @ ''/'' @ api_path in
      case session_request srv (requests t) ''GET'' url ps of
        Inl e \<Rightarrow> Inl e
      | Inr r \<Rightarrow> response_json json_loads r)"

definition post_json_response ::
  "server \<Rightarrow> (string \<Rightarrow> 'j option) \<Rightarrow> transport \<Rightarrow> string \<Rightarrow> params option \<Rightarrow> error + 'j" where
  "post_json_response srv json_loads t api_path ps =
     (let url = endpoint t @ ''/'' @ api_path in
      case session_request srv (requests t) ''POST'' url ps of
        Inl e \<Rightarrow> Inl e
      | Inr r \<Rightarrow> response_json json_loads r)"

definition fetch_chain_status ::
  "server \<Rightarrow> (string \<Rightarrow> 'j option) \<Rightarrow> transport \<Rightarrow> int \<Rightarrow> error + 'j" where
  "fetch_chain_status srv json_loads t cid =
     get_json_response srv json_loads t ''chain-status'' (Some [(''chain_id'', PInt cid)])"

definition ping :: "server \<Rightarrow> (string \<Rightarrow> 'j option) \<Rightarrow> transport \<Rightarrow> error + 'j" where
  "ping srv json_loads t = get_json_response srv json_loads t ''ping'' None"

definition message_of_the_day ::
  "server \<Rightarrow> (string \<Rightarrow> 'j option) \<Rightarrow> transport \<Rightarrow> error + 'j" where
  "message_of_the_day srv json_loads t =
     get_json_response srv json_loads t ''message-of-the-day'' None"

definition register ::
  "server \<Rightarrow> (string \<Rightarrow> 'j option) \<Rightarrow> transport \<Rightarrow> string \<Rightarrow> string \<Rightarrow> string
   \<Rightarrow> error + 'j" where
  "register srv json_loads t first_name last_name email =
     post_json_response srv json_loads t ''register''
       (Some [(''first_name'', PStr first_name), (''last_name'', PStr last_name),
              (''email'', PStr email)])"

text \<open>A \<^verbatim>\<open>TimeBucket\<close> member (enum of \<^verbatim>\<open>tradingstrategy.timebucket\<close>) with its value.\<close>

datatype time_bucket = TimeBucket (bucket_value: string)

definition fetch_pair_universe :: "transport \<Rightarrow> run \<Rightarrow> (error + handle option) \<times> run" where
  "fetch_pair_universe t st =
     (let fname = ''pair-universe.parquet'' in
      case get_cached_item t (sys st) fname of
        Inl e \<Rightarrow> (Inl e, st)
      | Inr (Some cached) \<Rightarrow> (Inr (Some cached), st)
      | Inr None \<Rightarrow>
          (let path = get_cached_file_path t (sys st) fname in
           case save_response t path ''pair-universe'' None st of
             (Some e, st') \<Rightarrow> (Inl e, st')
           | (None, st') \<Rightarrow> (get_cached_item t (sys st') fname, st')))"

definition fetch_exchange_universe :: "transport \<Rightarrow> run \<Rightarrow> (error + handle option) \<times> run" where
  "fetch_exchange_universe t st =
     (let fname = ''exchange-universe.json'' in
      case get_cached_item t (sys st) fname of
        Inl e \<Rightarrow> (Inl e, st)
      | Inr (Some cached) \<Rightarrow> (Inr (Some cached), st)
      | Inr None \<Rightarrow>
          (let path = get_cached_file_path t (sys st) fname in
           case save_response t path ''exchange-universe'' None st of
             (Some e, st') \<Rightarrow> (Inl e, st')
           | (None, st') \<Rightarrow> (get_cached_item t (sys st') fname, st')))"

definition fetch_candles_all_time ::
  "transport \<Rightarrow> time_bucket \<Rightarrow> run \<Rightarrow> (error + handle option) \<times> run" where
  "fetch_candles_all_time t bucket st =
     (let fname = ''candles-'' @ bucket_value bucket @ ''.parquet'' in
      case get_cached_item t (sys st) fname of
        Inl e \<Rightarrow> (Inl e, st)
      | Inr (Some cached) \<Rightarrow> (Inr (Some cached), st)
      | Inr None \<Rightarrow>
          (let path = get_cached_file_path t (sys st) fname in
           case save_response t path ''candles-all''
                  (Some [(''bucket'', PStr (bucket_value bucket))]) st of
             (Some e, st') \<Rightarrow> (Inl e, st')
           | (None, st') \<Rightarrow> (get_cached_item t (sys st') path, st')))"

definition fetch_liquidity_all_time ::
  "transport \<Rightarrow> time_bucket \<Rightarrow> run \<Rightarrow> (error + handle option) \<times> run" where
  "fetch_liquidity_all_time t bucket st =
     (let fname = ''liquidity-samples-'' @ bucket_value bucket @ ''.parquet'' in
      case get_cached_item t (sys st) fname of
        Inl e \<Rightarrow> (Inl e, st)
      | Inr (Some cached) \<Rightarrow> (Inr (Some cached), st)
      | Inr None \<Rightarrow>
          (let path = get_cached_file_path t (sys st) fname in
           case save_response t path ''liquidity-all''
                  (Some [(''bucket'', PStr (bucket_value bucket))]) st of
             (Some e, st') \<Rightarrow> (Inl e, st')
           | (None, st') \<Rightarrow> (get_cached_item t (sys st') path, st')))"

subsection \<open>The four cached datasets, by kind\<close>

text \<open>
  The dataset kinds of the specification, with the file name, the server resource path
  and the query parameters each fetch method uses, and the fetch method of each kind.
\<close>

datatype dataset = PairUniverse | ExchangeUniverse | Candles time_bucket | Liquidity time_bucket

fun dataset_fname :: "dataset \<Rightarrow> path" where
  "dataset_fname PairUniverse = ''pair-universe.parquet''"
| "dataset_fname ExchangeUniverse = ''exchange-universe.json''"
| "dataset_fname (Candles b) = ''candles-'' @ bucket_value b @ ''.parquet''"
| "dataset_fname (Liquidity b) = ''liquidity-samples-'' @ bucket_value b @ ''.parquet''"



fun fetch_dataset :: "transport \<Rightarrow> dataset \<Rightarrow> run \<Rightarrow> (error + handle option) \<times> run" where
  "fetch_dataset t PairUniverse st = fetch_pair_universe t st"
| "fetch_dataset t ExchangeUniverse st = fetch_exchange_universe t st"
| "fetch_dataset t (Candles b) st = fetch_candles_all_time t b st"
| "fetch_dataset t (Liquidity b) st = fetch_liquidity_all_time t b st"

subsection \<open>Concrete transports and worlds\<close>

text \<open>
  A download that completes: the body is on disk \<open>took\<close> time units after the call,
  and the call returns \<open>later\<close> units after that.
\<close>

definition write_download :: "string \<Rightarrow> int \<Rightarrow> int \<Rightarrow> download" where
  "write_download body took later s fpath url ps w =
     (None, w\<lparr>files := (files w)(fpath \<mapsto> File (clock w + took) body),
              clock := clock w + took + later\<rparr>)"

text \<open>A download that is cut off after the first bytes have reached the file.\<close>

definition partial_download :: "string \<Rightarrow> download" where
  "partial_download part s fpath url ps w =
     (Some (DownloadError ''connection lost''),
      w\<lparr>files := (files w)(fpath \<mapsto> File (clock w) part)\<rparr>)"

text \<open>A download that is refused before anything is written.\<close>

definition refused_download :: download where
  "refused_download s fpath url ps w = (Some (DownloadError ''refused''), w)"

definition transport0 :: "download \<Rightarrow> int \<Rightarrow> transport" where
  "transport0 dl period = CachedHTTPTransport ''/home/u'' dl None period None None"

definition cache_root0 :: path where
  "cache_root0 = ''/home/u/.cache/trading-strategy''"

definition pair_file0 :: path where
  "pair_file0 = ''/home/u/.cache/trading-strategy/pair-universe.parquet''"


text \<open>A world with a pair universe file written at time 100, and one with an empty disk.\<close>

definition world0 :: "int \<Rightarrow> world" where
  "world0 now =
     \<lparr>files = [cache_root0 \<mapsto> Dir 100, pair_file0 \<mapsto> File 100 ''DATA''],
      cwd = ''/home/u'', clock = now\<rparr>"

definition empty_world :: "int \<Rightarrow> world" where
  "empty_world now = \<lparr>files = Map.empty, cwd = ''/home/u'', clock = now\<rparr>"

definition start :: "world \<Rightarrow> run" where
  "start w = \<lparr>sys = w, download_calls = []\<rparr>"

text \<open>A server that answers every request with the same response.\<close>

definition fixed_server :: "int \<Rightarrow> string \<Rightarrow> server" where
  "fixed_server code body req = Some \<lparr>status_code = code, response_text = body\<rparr>"

section \<open>Properties of the cached transport\<close>

subsection \<open>Path resolution\<close>









subsection \<open>Directory creation keeps what is on disk\<close>

lemma mkdirs_keeps:
  "mkdirs p qs w = Inr w1 \<Longrightarrow>
   cwd w1 = cwd w \<and> clock w1 = clock w \<and> (\<forall>q n. files w q = Some n \<longrightarrow> files w1 q = Some n)"
proof (induction qs arbitrary: w)
  case Nil
  then show ?case by simp
next
  case (Cons q qs)
  show ?case
  proof (cases "files w q")
    case None
    with Cons.prems
    have "mkdirs p qs (w\<lparr>files := (files w)(q \<mapsto> Dir (clock w))\<rparr>) = Inr w1" by simp
    from Cons.IH [OF this]
    have keep: "cwd w1 = cwd w" "clock w1 = clock w"
      and files: "\<And>qa n. ((files w)(q \<mapsto> Dir (clock w))) qa = Some n \<Longrightarrow> files w1 qa = Some n"
      by auto
    have "files w1 qa = Some n" if "files w qa = Some n" for qa n
    proof -
      from that None have "qa \<noteq> q" by auto
      with that show ?thesis by (intro files) simp
    qed
    with keep show ?thesis by blast
  next
    case (Some n)
    with Cons.prems Cons.IH [of w] show ?thesis by (cases n) auto
  qed
qed

lemma makedirs_keeps_file:
  "makedirs p w = Inr w1 \<Longrightarrow> files w q = Some n \<Longrightarrow> files w1 q = Some n"
  unfolding makedirs_def by (drule mkdirs_keeps) blast


subsection \<open>Lookup\<close>

lemma get_cached_item_file:
  assumes "files w (get_cached_file_path t w fname) = Some (File T c)"
  shows "get_cached_item t w fname =
           (if clock w - T > cache_period t then Inr None
            else Inr (Some (Handle (get_cached_file_path t w fname) c)))"
  using assms by (simp add: get_cached_item_def Let_def exists_path_def st_mtime_def open_rb_def)

subsection \<open>Purging\<close>

lemma purge_cache_raises: "purge_cache t w = Inl TypeError"
  by (simp add: purge_cache_def)

text \<open>
  C1.  \<open>purge_cache\<close> hands the cache period, a \<^verbatim>\<open>timedelta\<close>, to
  \<^verbatim>\<open>shutil.rmtree\<close> instead of the cache path.  On a transport whose cache root
  exists and holds a file, the call raises \<^verbatim>\<open>TypeError\<close> and the file is still
  there, whereas removing the tree at the cache root would have succeeded and left
  neither the root nor the file.
\<close>

theorem purge_cache_deletes_nothing:
  "purge_cache (transport0 (write_download ''X'' 0 0) default_cache_period) (world0 200)
     = Inl TypeError
   \<and> get_abs_cache_path (transport0 (write_download ''X'' 0 0) default_cache_period)
        (world0 200) = cache_root0
   \<and> files (world0 200) cache_root0 = Some (Dir 100)
   \<and> files (world0 200) pair_file0 = Some (File 100 ''DATA'')
   \<and> (case rmtree (PyPath cache_root0) (world0 200) of
         Inl e \<Rightarrow> False
       | Inr w \<Rightarrow> files w cache_root0 = None \<and> files w pair_file0 = None)"
proof -
  have root: "get_abs_cache_path (transport0 (write_download ''X'' 0 0) default_cache_period)
        (world0 200) = cache_root0"
    by code_simp
  have there: "files (world0 200) cache_root0 = Some (Dir 100)"
    "files (world0 200) pair_file0 = Some (File 100 ''DATA'')"
    by (simp_all add: world0_def cache_root0_def pair_file0_def)
  have gone: "(case rmtree (PyPath cache_root0) (world0 200) of
         Inl e \<Rightarrow> False
       | Inr w \<Rightarrow> files w cache_root0 = None \<and> files w pair_file0 = None)"
    by code_simp
  show ?thesis
    using root there gone by (simp add: purge_cache_def)
qed

subsection \<open>Freshness\<close>

text \<open>
  C2, as the code has it.  A cache entry whose file was written at time \<open>T\<close> is
  reported valid, with its content, at every query time up to and including
  \<open>T + cache_period\<close>, and expired (no content) at every later query time: the test
  is \<^verbatim>\<open>now - mtime > cache_period\<close>, so the entry is still valid at exactly
  \<open>T + cache_period\<close>.
\<close>

theorem cache_entry_valid_through_period:
  assumes "files w (get_cached_file_path t w fname) = Some (File T c)"
  shows "(clock w \<le> T + cache_period t \<longrightarrow>
            get_cached_item t w fname
              = Inr (Some (Handle (get_cached_file_path t w fname) c)))
       \<and> (T + cache_period t < clock w \<longrightarrow> get_cached_item t w fname = Inr None)"
  using get_cached_item_file [OF assms] by auto

lemma pair_file0_resolved:
  "get_cached_file_path (transport0 dl period) (world0 now) ''pair-universe.parquet'' = pair_file0"
  unfolding transport0_def CachedHTTPTransport_def world0_def get_cached_file_path_def
    get_abs_cache_path_def abspath_def
  by simp code_simp

theorem cache_entry_valid_through_period_witness:
  "get_cached_item (transport0 (write_download ''X'' 0 0) 10) (world0 105)
     ''pair-universe.parquet'' = Inr (Some (Handle pair_file0 ''DATA''))
   \<and> get_cached_item (transport0 (write_download ''X'' 0 0) 10) (world0 111)
     ''pair-universe.parquet'' = Inr None"
proof -
  let ?t = "transport0 (write_download ''X'' 0 0) 10"
  have period: "cache_period ?t = 10"
    by (simp add: transport0_def CachedHTTPTransport_def)
  have on_disk: "files (world0 now) (get_cached_file_path ?t (world0 now) ''pair-universe.parquet'')
              = Some (File 100 ''DATA'')" for now
    unfolding pair_file0_resolved by (simp add: world0_def pair_file0_def cache_root0_def)
  have clocks: "clock (world0 105) = 105" "clock (world0 111) = 111"
    by (simp_all add: world0_def)
  show ?thesis
    using cache_entry_valid_through_period [OF on_disk [of 105]]
      cache_entry_valid_through_period [OF on_disk [of 111]]
    by (simp add: period clocks pair_file0_resolved)
qed

text \<open>
  The sentence of the specification fails at the boundary: with a period of 10, a file written at
  time 100 and a query at time 110, the lookup returns the content, not \<open>None\<close>.
\<close>

theorem cache_entry_at_deadline_counterexample:
  "cache_period (transport0 (write_download ''X'' 0 0) 10) = 10
   \<and> files (world0 110) pair_file0 = Some (File 100 ''DATA'')
   \<and> clock (world0 110) = 100 + 10
   \<and> get_cached_file_path (transport0 (write_download ''X'' 0 0) 10) (world0 110)
        ''pair-universe.parquet'' = pair_file0
   \<and> get_cached_item (transport0 (write_download ''X'' 0 0) 10) (world0 110)
        ''pair-universe.parquet'' = Inr (Some (Handle pair_file0 ''DATA''))
   \<and> get_cached_item (transport0 (write_download ''X'' 0 0) 10) (world0 110)
        ''pair-universe.parquet'' \<noteq> Inr None"
proof -
  have item: "get_cached_item (transport0 (write_download ''X'' 0 0) 10) (world0 110)
        ''pair-universe.parquet'' = Inr (Some (Handle pair_file0 ''DATA''))"
    by code_simp
  show ?thesis
    by (simp add: item pair_file0_resolved)
       (simp add: transport0_def CachedHTTPTransport_def world0_def pair_file0_def
          cache_root0_def)
qed

subsection \<open>Cache hit\<close>

lemma fetch_dataset_hit:
  assumes "get_cached_item t (sys st) (dataset_fname ds) = Inr (Some h)"
  shows "fetch_dataset t ds st = (Inr (Some h), st)"
  using assms
  by (cases ds)
     (simp_all add: fetch_pair_universe_def fetch_exchange_universe_def
        fetch_candles_all_time_def fetch_liquidity_all_time_def)

text \<open>
  C5.  For each of the four fetch operations: when the cache entry of the dataset is
  valid at the time of the call (its file exists and the period has not been
  exceeded), the operation returns a handle on the cached content, the world is
  unchanged and no call of the download function is made.
\<close>

theorem fetch_hit_returns_cached_without_download:
  assumes "files (sys st) (get_cached_file_path t (sys st) (dataset_fname ds)) = Some (File T c)"
    and "clock (sys st) - T \<le> cache_period t"
  shows "fetch_dataset t ds st
           = (Inr (Some (Handle (get_cached_file_path t (sys st) (dataset_fname ds)) c)), st)
       \<and> download_calls (snd (fetch_dataset t ds st)) = download_calls st"
proof -
  have "get_cached_item t (sys st) (dataset_fname ds)
          = Inr (Some (Handle (get_cached_file_path t (sys st) (dataset_fname ds)) c))"
    using get_cached_item_file [OF assms(1)] assms(2) by simp
  from fetch_dataset_hit [OF this] show ?thesis by simp
qed

theorem fetch_hit_returns_cached_without_download_witness:
  "fst (fetch_pair_universe (transport0 (partial_download ''PA'') 10) (start (world0 105)))
     = Inr (Some (Handle pair_file0 ''DATA''))
   \<and> download_calls
       (snd (fetch_pair_universe (transport0 (partial_download ''PA'') 10) (start (world0 105))))
     = []"
proof -
  let ?t = "transport0 (partial_download ''PA'') 10"
  have period: "cache_period ?t = 10"
    by (simp add: transport0_def CachedHTTPTransport_def)
  have on_disk: "files (sys (start (world0 105)))
                (get_cached_file_path ?t (sys (start (world0 105))) (dataset_fname PairUniverse))
              = Some (File 100 ''DATA'')"
    by (simp add: start_def pair_file0_resolved) (simp add: world0_def pair_file0_def cache_root0_def)
  have fresh: "clock (sys (start (world0 105))) - 100 \<le> cache_period ?t"
    by (simp add: period start_def world0_def)
  show ?thesis
    using fetch_hit_returns_cached_without_download [OF on_disk fresh]
    by (simp add: start_def pair_file0_resolved)
qed

subsection \<open>Storing a download\<close>

lemma save_response_run:
  assumes "makedirs (get_abs_cache_path t (sys st)) (sys st) = Inr w1"
    and "download_func t (requests t) fpath (endpoint t @ ''/'' @ api_path) ps w1 = (r, w2)"
  shows "save_response t fpath api_path ps st
           = (r, \<lparr>sys = w2,
                  download_calls = download_calls st
                                   @ [(fpath, endpoint t @ ''/'' @ api_path, ps)]\<rparr>)"
  using assms by (simp add: save_response_def Let_def)

text \<open>
  C3, as the code has it.  \<open>save_response\<close> creates the cache root and hands the
  final path to the injected download function; it has no temporary file, no rename and
  no clean-up.  When the download fails, the failure is passed on and the files are
  exactly those the download function left.  So a file stored earlier at the path
  survives a failed download whenever the download function left that path alone; what
  a download function wrote there before failing stays there.
\<close>

theorem save_response_leaves_what_download_left:
  assumes "makedirs (get_abs_cache_path t (sys st)) (sys st) = Inr w1"
    and "download_func t (requests t) fpath (endpoint t @ ''/'' @ api_path) ps w1 = (Some e, w2)"
  shows "save_response t fpath api_path ps st
           = (Some e, \<lparr>sys = w2,
                       download_calls = download_calls st
                                        @ [(fpath, endpoint t @ ''/'' @ api_path, ps)]\<rparr>)
       \<and> (files w2 fpath = files w1 fpath \<longrightarrow> files (sys st) fpath = Some (File m c) \<longrightarrow>
            files (sys (snd (save_response t fpath api_path ps st))) fpath = Some (File m c))"
  using save_response_run [OF assms] makedirs_keeps_file [OF assms(1), of fpath "File m c"]
  by simp

lemma makedirs_world0_succeeds:
  "\<not> isl (makedirs (get_abs_cache_path (transport0 dl period) (world0 now)) (world0 now))"
  unfolding transport0_def CachedHTTPTransport_def world0_def get_abs_cache_path_def abspath_def
  by simp code_simp

theorem save_response_leaves_what_download_left_witness:
  "fst (save_response (transport0 refused_download 10) pair_file0 ''pair-universe'' None
          (start (world0 105))) = Some (DownloadError ''refused'')
   \<and> files (sys (snd (save_response (transport0 refused_download 10) pair_file0
          ''pair-universe'' None (start (world0 105))))) pair_file0
       = Some (File 100 ''DATA'')"
proof -
  let ?t = "transport0 refused_download 10"
  let ?st = "start (world0 105)"
  obtain w1 where mk: "makedirs (get_abs_cache_path ?t (sys ?st)) (sys ?st) = Inr w1"
    using makedirs_world0_succeeds [of refused_download 10 105]
    by (cases "makedirs (get_abs_cache_path ?t (sys ?st)) (sys ?st)") (auto simp: start_def)
  have dl: "download_func ?t (requests ?t) pair_file0 (endpoint ?t @ ''/'' @ ''pair-universe'')
              None w1 = (Some (DownloadError ''refused''), w1)"
    by (simp add: transport0_def CachedHTTPTransport_def refused_download_def)
  have before: "files (sys ?st) pair_file0 = Some (File 100 ''DATA'')"
    by (simp add: start_def world0_def pair_file0_def cache_root0_def)
  note inst = save_response_leaves_what_download_left [OF mk dl, of 100 "''DATA''"]
  have result: "fst (save_response ?t pair_file0 ''pair-universe'' None ?st)
                = Some (DownloadError ''refused'')"
    using inst by simp
  have kept: "files (sys (snd (save_response ?t pair_file0 ''pair-universe'' None ?st)))
                pair_file0 = Some (File 100 ''DATA'')"
    using inst before by blast
  show ?thesis
    using result kept by (rule conjI)
qed

text \<open>
  The sentence of the specification fails: with a download function that is cut off after writing
  the first bytes to the path it was given, the cache entry was absent before the call,
  the call raises, and the next lookup returns the partial file as valid content.
\<close>

theorem partial_download_counterexample:
  "get_cached_item (transport0 (partial_download ''PA'') 10) (empty_world 1000)
     ''pair-universe.parquet'' = Inr None
   \<and> files (empty_world 1000) pair_file0 = None
   \<and> fst (fetch_pair_universe (transport0 (partial_download ''PA'') 10)
            (start (empty_world 1000))) = Inl (DownloadError ''connection lost'')
   \<and> get_cached_item (transport0 (partial_download ''PA'') 10)
       (sys (snd (fetch_pair_universe (transport0 (partial_download ''PA'') 10)
                   (start (empty_world 1000)))))
       ''pair-universe.parquet'' = Inr (Some (Handle pair_file0 ''PA''))"
  by code_simp

subsection \<open>Cache miss\<close>

lemma get_cached_item_fresh_file:
  assumes "files w (get_cached_file_path t w key) = Some (File m c)"
    and "clock w - m \<le> cache_period t"
  shows "get_cached_item t w key = Inr (Some (Handle (get_cached_file_path t w key) c))"
  using get_cached_item_file [OF assms(1)] assms(2) by simp


lemma makedirs_keeps_clock: "makedirs p w = Inr w1 \<Longrightarrow> clock w1 = clock w"
  unfolding makedirs_def by (drule mkdirs_keeps) blast





subsection \<open>Error translation\<close>

lemma session_request_hooked:
  assumes "srv \<lparr>req_method = verb, req_url = url, req_params = ps,
                 req_headers = headers (create_requests_client api_key)\<rparr> = Some r"
  shows "session_request srv (create_requests_client api_key) verb url ps
           = (if 400 \<le> status_code r then Inl (APIError (response_text r)) else Inr r)"
  using assms
  by (simp add: session_request_def dispatch_hook_def exception_hook_def
      create_requests_client_def)

lemma response_json_not_api_error: "response_json json_loads r \<noteq> Inl (APIError msg)"
  by (simp add: response_json_def split: option.splits)

text \<open>
  C4.  A transport holds the session made by \<open>create_requests_client\<close>.  For every
  request sent through that session for which the server returns a response \<open>r\<close>: the
  request raises an \<open>APIError\<close> if and only if the status of \<open>r\<close> is at least 400,
  and the error then carries the body text of \<open>r\<close>; otherwise the response reaches the
  caller.  The same holds for the JSON calls of the transport, which send their request
  through the session: they raise an \<open>APIError\<close> exactly when the status is at least
  400, with the body text as message.
\<close>

theorem api_error_iff_status_at_least_400:
  assumes "requests t = create_requests_client api_key"
    and "srv \<lparr>req_method = verb, req_url = endpoint t @ ''/'' @ api_path, req_params = ps,
               req_headers = headers (requests t)\<rparr> = Some r"
  shows "((\<exists>msg. session_request srv (requests t) verb (endpoint t @ ''/'' @ api_path) ps
                  = Inl (APIError msg)) \<longleftrightarrow> 400 \<le> status_code r)
       \<and> (400 \<le> status_code r \<longrightarrow>
            session_request srv (requests t) verb (endpoint t @ ''/'' @ api_path) ps
              = Inl (APIError (response_text r)))
       \<and> (status_code r < 400 \<longrightarrow>
            session_request srv (requests t) verb (endpoint t @ ''/'' @ api_path) ps = Inr r)
       \<and> (verb = ''GET'' \<longrightarrow>
            ((\<exists>msg. get_json_response srv json_loads t api_path ps = Inl (APIError msg))
               \<longleftrightarrow> 400 \<le> status_code r)
            \<and> (400 \<le> status_code r \<longrightarrow>
                 get_json_response srv json_loads t api_path ps
                   = Inl (APIError (response_text r))))
       \<and> (verb = ''POST'' \<longrightarrow>
            ((\<exists>msg. post_json_response srv json_loads t api_path ps = Inl (APIError msg))
               \<longleftrightarrow> 400 \<le> status_code r)
            \<and> (400 \<le> status_code r \<longrightarrow>
                 post_json_response srv json_loads t api_path ps
                   = Inl (APIError (response_text r))))"
proof -
  have req: "session_request srv (requests t) verb (endpoint t @ ''/'' @ api_path) ps
           = (if 400 \<le> status_code r then Inl (APIError (response_text r)) else Inr r)"
    using session_request_hooked [of srv verb _ ps api_key r] assms by simp
  show ?thesis
    unfolding get_json_response_def post_json_response_def Let_def
    using req response_json_not_api_error [of json_loads r]
    by (auto simp: not_le)
qed

theorem api_error_iff_status_at_least_400_witness:
  "get_json_response (fixed_server 404 ''not found'') (\<lambda>s. Some s)
     (transport0 refused_download 10) ''ping'' None = Inl (APIError ''not found'')
   \<and> get_json_response (fixed_server 200 ''pong'') (\<lambda>s. Some s)
     (transport0 refused_download 10) ''ping'' None = Inr ''pong''"
proof -
  let ?t = "transport0 refused_download 10"
  have s: "requests ?t = create_requests_client None"
    by (simp add: transport0_def CachedHTTPTransport_def)
  have r404: "fixed_server 404 ''not found''
      \<lparr>req_method = ''GET'', req_url = endpoint ?t @ ''/'' @ ''ping'', req_params = None,
       req_headers = headers (requests ?t)\<rparr>
      = Some \<lparr>status_code = 404, response_text = ''not found''\<rparr>"
    by (simp add: fixed_server_def)
  have ok: "get_json_response (fixed_server 200 ''pong'') (\<lambda>s. Some s) ?t ''ping'' None
            = Inr ''pong''"
    by code_simp
  note inst = api_error_iff_status_at_least_400
    [where t = ?t and api_key = None and srv = "fixed_server 404 ''not found''"
       and verb = "''GET''" and api_path = "''ping''" and ps = None
       and r = "\<lparr>status_code = 404, response_text = ''not found''\<rparr>"
       and json_loads = "\<lambda>s. Some s", OF s r404]
  have err: "get_json_response (fixed_server 404 ''not found'') (\<lambda>s. Some s) ?t ''ping'' None
             = Inl (APIError ''not found'')"
    using inst by simp
  show ?thesis
    using err ok by (rule conjI)
qed

section \<open>Order independence of the three exclusion filters\<close>

lemma loc_rows_commute:
  "loc_rows p (loc_rows q pairs) = loc_rows q (loc_rows p pairs)"
  unfolding loc_rows_def filter_filter by (rule filter_cong) auto

text \<open>
  C9.  On a fixed pair table, the stablecoin exclusion (mode \<open>only_volatile_pairs\<close>),
  the derivative exclusion and the rebase exclusion give the same frame in each of the
  six orders in which they can be applied: the same rows, with the same labels, in the
  same order, hence the same row set.
\<close>

theorem exclusion_filters_commute:
  fixes ext :: externals and pairs :: dataframe
  defines "S \<equiv> (\<lambda>df. filter_for_stablecoins ext df only_volatile_pairs)"
    and "D \<equiv> (\<lambda>df. filter_for_derivatives df False)"
    and "R \<equiv> (\<lambda>df. filter_for_rebases ext df False)"
  shows "S (D (R pairs)) = R (D (S pairs))
       \<and> S (R (D pairs)) = R (D (S pairs))
       \<and> D (S (R pairs)) = R (D (S pairs))
       \<and> D (R (S pairs)) = R (D (S pairs))
       \<and> R (S (D pairs)) = R (D (S pairs))
       \<and> set (S (D (R pairs))) = set (R (D (S pairs)))"
proof -
  have sd: "S (D df) = D (S df)" for df
    unfolding S_def D_def filter_for_derivatives_def filter_for_stablecoins.simps
    by (rule loc_rows_commute)
  have sr: "S (R df) = R (S df)" for df
    unfolding S_def R_def filter_for_rebases_def filter_for_stablecoins.simps
    by (rule loc_rows_commute)
  have dr: "D (R df) = R (D df)" for df
    unfolding D_def R_def filter_for_rebases_def filter_for_derivatives_def
    by (rule loc_rows_commute)
  show ?thesis by (simp add: sd sr dr)
qed

theorem exclusion_filters_commute_witness:
  "map fst (filter_for_stablecoins ext0
      (filter_for_derivatives (filter_for_rebases ext0 table0 False) False)
      only_volatile_pairs) = [0, 1]
   \<and> map fst (filter_for_rebases ext0
      (filter_for_derivatives (filter_for_stablecoins ext0 table0 only_volatile_pairs) False)
      False) = [0, 1]"
proof -
  have e: "map fst (filter_for_rebases ext0
      (filter_for_derivatives (filter_for_stablecoins ext0 table0 only_volatile_pairs) False)
      False) = [0, 1]"
    by (simp add: ascii_upper_def table0_def mk_row_def ext0_def filter_for_rebases_def
        filter_for_derivatives_def loc_rows_def is_rebase_def is_derivative_def
        both_stablecoin_like_def REBASE_TOKENS_def DERIVATIVE_TOKEN_PREFIXES_def
        startswith_def)
  show ?thesis
    using exclusion_filters_commute [of ext0 table0] e by simp
qed

section \<open>Properties of the default pipeline\<close>

subsection \<open>The fee mask, aligned by label\<close>

lemma positional_same_frame:
  "map fst (filter snd (zip df (map (\<lambda>lr. q (snd lr)) df))) = loc_rows q df"
  unfolding loc_rows_def by (induction df) auto

lemma filter_same_labels:
  assumes "map fst (filter p df) = map fst df"
  shows "filter p df = df"
proof -
  from assms have "length (filter p df) = length df"
    by (metis length_map)
  then show ?thesis
    by (metis filter_True length_filter_less less_irrefl_nat)
qed

lemma map_of_mask:
  "distinct (map fst df) \<Longrightarrow> (l, r) \<in> set df \<Longrightarrow>
   map_of (map (\<lambda>lr. (fst lr, q (snd lr))) df) l = Some (q r)"
  by (induction df) (auto simp: rev_image_eqI)

lemma loc_mask_whole:
  "loc_mask pairs_df (map (\<lambda>lr. (fst lr, q (snd lr))) pairs_df) = Inr (loc_rows q pairs_df)"
  unfolding loc_mask_def by (simp add: positional_same_frame o_def)

lemma loc_mask_aligned:
  assumes "distinct (map fst pairs_df)"
  shows "loc_mask (loc_rows p pairs_df) (map (\<lambda>lr. (fst lr, q (snd lr))) pairs_df)
         = Inr (loc_rows q (loc_rows p pairs_df))"
proof (cases "map fst (loc_rows p pairs_df) = map fst pairs_df")
  case True
  then have same: "loc_rows p pairs_df = pairs_df"
    unfolding loc_rows_def by (rule filter_same_labels)
  show ?thesis
    unfolding same by (rule loc_mask_whole)
next
  case False
  let ?m = "map (\<lambda>lr. (fst lr, q (snd lr))) pairs_df"
  have lab: "map fst ?m = map fst pairs_df" by (simp add: o_def)
  have found: "map_of ?m (fst lr) = Some (q (snd lr))" if "lr \<in> set pairs_df" for lr
    using map_of_mask [OF assms, of "fst lr" "snd lr" q] that by simp
  have sub: "set (loc_rows p pairs_df) \<subseteq> set pairs_df"
    unfolding loc_rows_def by auto
  have none: "\<not> list_ex (\<lambda>l. map_of ?m l = None) (map fst (loc_rows p pairs_df))"
    using found sub by (auto simp: list_ex_iff)
  have sel: "filter (\<lambda>lr. map_of ?m (fst lr) = Some True) (loc_rows p pairs_df)
             = loc_rows q (loc_rows p pairs_df)"
    unfolding loc_rows_def [of q] using found sub by (intro filter_cong) auto
  have neq: "map fst ?m \<noteq> map fst (loc_rows p pairs_df)"
    unfolding lab using False by auto
  show ?thesis
    unfolding loc_mask_def using neq none sel by (simp only: if_False)
qed

lemma fee_step:
  assumes "distinct (map fst pairs_df)"
  shows "loc_mask (loc_rows p pairs_df) (map (\<lambda>lr. (fst lr, fee (snd lr) \<le> m)) pairs_df)
         = Inr (loc_rows (\<lambda>r. fee r \<le> m) (loc_rows p pairs_df))"
  using loc_mask_aligned [OF assms, where q = "\<lambda>r. fee r \<le> m"] by simp

lemma fee_step_whole:
  "loc_mask pairs_df (map (\<lambda>lr. (fst lr, fee (snd lr) \<le> m)) pairs_df)
         = Inr (loc_rows (\<lambda>r. fee r \<le> m) pairs_df)"
  using loc_mask_whole [where q = "\<lambda>r. fee r \<le> m"] by simp

subsection \<open>Laws of printing computations\<close>

lemma bind_return_left: "bind (return x) f = f x"
  by (rule ext) (simp add: bind_def return_def)

lemma bind_raise: "bind (raise e) f = raise e"
  by (rule ext) (simp add: bind_def raise_def)

lemma bind_assoc: "bind (bind m f) g = bind m (\<lambda>x. bind (f x) g)"
  by (rule ext) (simp add: bind_def split: prod.splits sum.splits)

lemma bind_verbose_print: "bind (verbose_print m n) f calls = f () (calls @ [(m, n)])"
  by (simp add: bind_def verbose_print_def)

lemma lift_Inr: "lift (Inr x) = return x"
  by (simp add: lift_def)

lemma lift_Inl: "lift (Inl e) = raise e"
  by (simp add: lift_def)

lemma run_m_Nil: "run_m [] = return"
  by (rule ext)+ (simp add: run_m_def return_def)

lemma run_m_Cons:
  "run_m (s # ss) =
   (\<lambda>df. bind (verbose_print (fst s) (length (loc_rows (snd s) df)))
          (\<lambda>_. run_m ss (loc_rows (snd s) df)))"
  by (rule ext)+ (simp add: run_m_def bind_verbose_print Let_def)

lemma run_m_when:
  "run_m (when_requested b s @ ss) =
   (\<lambda>df. bind (if b then bind (verbose_print (fst s) (length (loc_rows (snd s) df)))
                           (\<lambda>_. return (loc_rows (snd s) df))
               else return df) (run_m ss))"
  by (rule ext)+
     (simp add: when_requested_def run_m_def bind_verbose_print bind_return_left Let_def
        return_def bind_def verbose_print_def)

lemma run_m_append: "run_m (a @ b) = (\<lambda>df. bind (run_m a df) (run_m b))"
proof (induction a)
  case Nil
  show ?case by (simp add: run_m_Nil bind_return_left)
next
  case (Cons s a)
  show ?case by (simp add: run_m_Cons Cons.IH bind_assoc)
qed

lemma run_m_when_last:
  "run_m (when_requested b s) =
   (\<lambda>df. if b then bind (verbose_print (fst s) (length (loc_rows (snd s) df)))
                     (\<lambda>_. return (loc_rows (snd s) df))
          else return df)"
proof -
  have "run_m (when_requested b s) = run_m (when_requested b s @ [])" by simp
  also have "\<dots> = (\<lambda>df. bind (if b then bind (verbose_print (fst s) (length (loc_rows (snd s) df)))
                           (\<lambda>_. return (loc_rows (snd s) df))
               else return df) return)"
    unfolding run_m_when run_m_Nil ..
  finally show ?thesis
    by (simp add: fun_eq_iff bind_def return_def split: prod.splits sum.splits)
qed

subsection \<open>What \<open>filter_pairs_default\<close> computes\<close>

text \<open>
  The aligned fee mask needs a unique index only when the chain step has run before it.
\<close>

lemmas pipeline_unfold =
  chain_and_fee_steps_def narrowing_steps_def closing_steps_def

lemmas filter_unfold =
  filter_for_blacklisted_tokens_def filter_for_nonascii_tokens_def filter_for_rebases_def
  filter_for_derivatives_def filter_for_exchange_ids_def filter_for_exchanges_def
  filter_for_chain_def

lemma pipeline_succeeds:
  assumes uniq: "int_bool max_fee \<Longrightarrow> chain_id_bool ext chain_opt \<Longrightarrow> distinct (map fst pairs_df)"
    and cand: "id_source_bool candle_ids = Inr b"
    and bl: "collection_bool blacklist \<Longrightarrow> is_list_or_set (the blacklist)"
  shows "filter_pairs_default ext pairs_df max_fee blacklist good_quote exchanges exchange_ids
           candle_ids chain_opt
         = bind (verbose_print ''Pairs in the input dataset'' (length pairs_df))
             (\<lambda>_. run_m (default_steps ext max_fee blacklist good_quote exchanges exchange_ids
                            candle_ids chain_opt) pairs_df)"
proof (cases "chain_id_bool ext chain_opt")
  case True
  have fee: "int_bool max_fee \<Longrightarrow>
      loc_mask (loc_rows p pairs_df)
        (map (\<lambda>lr. (fst lr, fee (snd lr) \<le> the max_fee)) pairs_df)
      = Inr (loc_rows (\<lambda>r. fee r \<le> the max_fee) (loc_rows p pairs_df))" for p
    using fee_step [OF uniq [OF _ True]] by simp
  show ?thesis
    unfolding filter_pairs_default_def default_steps_def pipeline_unfold
    apply (simp only: run_m_append run_m_when run_m_when_last run_m_Cons run_m_Nil
        append_Cons append_Nil fst_conv snd_conv)
    apply (simp add: True cand bl fee lift_Inr bind_return_left bind_assoc filter_unfold
        Let_def cong: if_cong split del: if_split)
    done
next
  case False
  show ?thesis
    unfolding filter_pairs_default_def default_steps_def pipeline_unfold
    apply (simp only: run_m_append run_m_when run_m_when_last run_m_Cons run_m_Nil
        append_Cons append_Nil fst_conv snd_conv)
    apply (simp add: False cand bl fee_step_whole lift_Inr bind_return_left bind_assoc
        filter_unfold Let_def cong: if_cong split del: if_split)
    done
qed

lemma pipeline_raises_on_series:
  assumes uniq: "int_bool max_fee \<Longrightarrow> chain_id_bool ext chain_opt \<Longrightarrow> distinct (map fst pairs_df)"
    and cand: "id_source_bool candle_ids = Inl e"
  shows "filter_pairs_default ext pairs_df max_fee blacklist good_quote exchanges exchange_ids
           candle_ids chain_opt
         = bind (verbose_print ''Pairs in the input dataset'' (length pairs_df))
             (\<lambda>_. bind (run_m (chain_and_fee_steps ext max_fee chain_opt) pairs_df)
                     (\<lambda>_. raise e))"
proof (cases "chain_id_bool ext chain_opt")
  case True
  have fee: "int_bool max_fee \<Longrightarrow>
      loc_mask (loc_rows p pairs_df)
        (map (\<lambda>lr. (fst lr, fee (snd lr) \<le> the max_fee)) pairs_df)
      = Inr (loc_rows (\<lambda>r. fee r \<le> the max_fee) (loc_rows p pairs_df))" for p
    using fee_step [OF uniq [OF _ True]] by simp
  show ?thesis
    unfolding filter_pairs_default_def pipeline_unfold
    apply (simp only: run_m_append run_m_when run_m_when_last run_m_Cons run_m_Nil
        append_Cons append_Nil fst_conv snd_conv)
    apply (simp add: True cand fee lift_Inr lift_Inl bind_raise bind_return_left bind_assoc
        filter_unfold Let_def cong: if_cong split del: if_split)
    done
next
  case False
  show ?thesis
    unfolding filter_pairs_default_def pipeline_unfold
    apply (simp only: run_m_append run_m_when run_m_when_last run_m_Cons run_m_Nil
        append_Cons append_Nil fst_conv snd_conv)
    apply (simp add: False cand fee_step_whole lift_Inr lift_Inl bind_raise bind_return_left
        bind_assoc filter_unfold Let_def cong: if_cong split del: if_split)
    done
qed

lemma pipeline_raises_on_blacklist_type:
  assumes uniq: "int_bool max_fee \<Longrightarrow> chain_id_bool ext chain_opt \<Longrightarrow> distinct (map fst pairs_df)"
    and cand: "id_source_bool candle_ids = Inr b"
    and bl: "collection_bool blacklist" "\<not> is_list_or_set (the blacklist)"
  shows "filter_pairs_default ext pairs_df max_fee blacklist good_quote exchanges exchange_ids
           candle_ids chain_opt
         = bind (verbose_print ''Pairs in the input dataset'' (length pairs_df))
             (\<lambda>_. bind (run_m (chain_and_fee_steps ext max_fee chain_opt
                                @ narrowing_steps ext good_quote exchanges exchange_ids candle_ids)
                          pairs_df)
                     (\<lambda>_. raise AssertionError))"
proof (cases "chain_id_bool ext chain_opt")
  case True
  have fee: "int_bool max_fee \<Longrightarrow>
      loc_mask (loc_rows p pairs_df)
        (map (\<lambda>lr. (fst lr, fee (snd lr) \<le> the max_fee)) pairs_df)
      = Inr (loc_rows (\<lambda>r. fee r \<le> the max_fee) (loc_rows p pairs_df))" for p
    using fee_step [OF uniq [OF _ True]] by simp
  show ?thesis
    unfolding filter_pairs_default_def pipeline_unfold
    apply (simp only: run_m_append run_m_when run_m_when_last run_m_Cons run_m_Nil
        append_Cons append_Nil fst_conv snd_conv)
    apply (simp add: True cand bl fee lift_Inr lift_Inl bind_raise bind_return_left bind_assoc
        filter_unfold Let_def cong: if_cong split del: if_split)
    done
next
  case False
  show ?thesis
    unfolding filter_pairs_default_def pipeline_unfold
    apply (simp only: run_m_append run_m_when run_m_when_last run_m_Cons run_m_Nil
        append_Cons append_Nil fst_conv snd_conv)
    apply (simp add: False cand bl fee_step_whole lift_Inr lift_Inl bind_raise bind_return_left
        bind_assoc filter_unfold Let_def cong: if_cong split del: if_split)
    done
qed

lemma run_m_apply:
  "run_m ss df calls = (Inr (fst (run_steps ss df calls)), snd (run_steps ss df calls))"
  by (simp add: run_m_def split: prod.splits)

lemma bind_run_m_raise:
  "bind (run_m ss df) (\<lambda>_. raise e) calls = (Inl e, snd (run_steps ss df calls))"
  by (simp add: bind_def run_m_apply raise_def)

text \<open>
  The outcome of the pipeline for every input: a Series of pair ids raises when its
  truth value is taken, after the chain and fee steps; a non-empty blacklist that is
  neither a list nor a set raises in \<open>filter_for_blacklisted_tokens\<close>, after step 9;
  otherwise the steps run to the end.
\<close>

lemma pipeline_outcome:
  assumes uniq: "int_bool max_fee \<and> chain_id_bool ext chain_opt \<longrightarrow> distinct (map fst pairs_df)"
  shows "filter_pairs_default ext pairs_df max_fee blacklist good_quote exchanges exchange_ids
           candle_ids chain_opt calls
         = (let c0 = calls @ [(''Pairs in the input dataset'', length pairs_df)];
                early = chain_and_fee_steps ext max_fee chain_opt;
                middle = narrowing_steps ext good_quote exchanges exchange_ids candle_ids
            in case id_source_bool candle_ids of
                 Inl e \<Rightarrow> (Inl e, snd (run_steps early pairs_df c0))
               | Inr b \<Rightarrow>
                   if collection_bool blacklist \<and> \<not> is_list_or_set (the blacklist)
                   then (Inl AssertionError, snd (run_steps (early @ middle) pairs_df c0))
                   else (Inr (fst (run_steps (early @ middle @ closing_steps ext blacklist)
                                     pairs_df c0)),
                         snd (run_steps (early @ middle @ closing_steps ext blacklist)
                                pairs_df c0)))"
proof (cases "id_source_bool candle_ids")
  case (Inl e)
  have eq: "filter_pairs_default ext pairs_df max_fee blacklist good_quote exchanges
               exchange_ids candle_ids chain_opt
         = bind (verbose_print ''Pairs in the input dataset'' (length pairs_df))
             (\<lambda>_. bind (run_m (chain_and_fee_steps ext max_fee chain_opt) pairs_df)
                     (\<lambda>_. raise e))"
    by (rule pipeline_raises_on_series [OF _ Inl]) (use uniq in simp)
  show ?thesis
    unfolding eq by (simp add: bind_verbose_print bind_run_m_raise Inl Let_def)
next
  case (Inr b)
  show ?thesis
  proof (cases "collection_bool blacklist \<and> \<not> is_list_or_set (the blacklist)")
    case True
    then have bl: "collection_bool blacklist" "\<not> is_list_or_set (the blacklist)" by auto
    have eq: "filter_pairs_default ext pairs_df max_fee blacklist good_quote exchanges
                 exchange_ids candle_ids chain_opt
         = bind (verbose_print ''Pairs in the input dataset'' (length pairs_df))
             (\<lambda>_. bind (run_m (chain_and_fee_steps ext max_fee chain_opt
                                @ narrowing_steps ext good_quote exchanges exchange_ids candle_ids)
                          pairs_df)
                     (\<lambda>_. raise AssertionError))"
      by (rule pipeline_raises_on_blacklist_type [OF _ Inr bl]) (use uniq in simp)
    show ?thesis
      unfolding eq using True by (simp add: bind_verbose_print bind_run_m_raise Inr Let_def)
  next
    case False
    then have bl: "collection_bool blacklist \<Longrightarrow> is_list_or_set (the blacklist)" by auto
    have eq: "filter_pairs_default ext pairs_df max_fee blacklist good_quote exchanges
                 exchange_ids candle_ids chain_opt
         = bind (verbose_print ''Pairs in the input dataset'' (length pairs_df))
             (\<lambda>_. run_m (default_steps ext max_fee blacklist good_quote exchanges exchange_ids
                            candle_ids chain_opt) pairs_df)"
      by (rule pipeline_succeeds [OF _ Inr]) (use uniq bl in simp_all)
    show ?thesis
      unfolding eq using False by (simp add: bind_verbose_print run_m_apply Inr default_steps_def Let_def)
  qed
qed

subsection \<open>Order of the steps\<close>

text \<open>
  C7, as the code has it.  For every pair table with a unique index and every
  combination of the optional arguments in which the pair ids are absent or a built-in
  collection and the blacklist is absent, empty, a list or a set:
  \<open>filter_pairs_default\<close> returns the frame obtained by running the steps of
  \<open>default_steps\<close> in their order (chain, fee, candle presence, exchange by object,
  exchange by id, the four steps that always run, blacklist, non-ASCII), each step on the
  result of the step before, and the print callback receives the row count of the input
  and then, in the same order, the row count after each step that ran.
\<close>

theorem default_pipeline_runs_steps_in_order:
  assumes "distinct (map fst pairs_df)"
    and "\<And>xs. candle_ids \<noteq> Some (IdSeries xs)"
    and "collection_bool blacklist \<Longrightarrow> is_list_or_set (the blacklist)"
  shows "filter_pairs_default ext pairs_df max_fee blacklist good_quote exchanges exchange_ids
           candle_ids chain_opt []
         = (Inr (fst (run_steps
                        (default_steps ext max_fee blacklist good_quote exchanges exchange_ids
                           candle_ids chain_opt)
                        pairs_df [(''Pairs in the input dataset'', length pairs_df)])),
            snd (run_steps
                   (default_steps ext max_fee blacklist good_quote exchanges exchange_ids
                      candle_ids chain_opt)
                   pairs_df [(''Pairs in the input dataset'', length pairs_df)]))"
proof -
  obtain b where b: "id_source_bool candle_ids = Inr b"
    using assms(2) by (cases candle_ids rule: id_source_bool.cases) auto
  have ok: "\<not> (collection_bool blacklist \<and> \<not> is_list_or_set (the blacklist))"
    using assms(3) by auto
  show ?thesis
    using pipeline_outcome [of max_fee ext chain_opt pairs_df blacklist good_quote exchanges
        exchange_ids candle_ids "[]"] assms(1) ok
    by (simp add: b default_steps_def Let_def)
qed

theorem default_pipeline_runs_steps_in_order_witness:
  "map_sum id (map fst)
     (fst (filter_pairs_default ext0 table0 (Some 30) (Some (PyList [''SHIB'']))
             DEFAULT_GOOD_QUOTE_TOKENS None (Some (PySet [1]))
             (Some (IdCollection (PyList [1, 2, 3, 4]))) (Some (ChainId 1 ''ethereum'')) []))
     = Inr [0]
   \<and> snd (filter_pairs_default ext0 table0 (Some 30) (Some (PyList [''SHIB'']))
             DEFAULT_GOOD_QUOTE_TOKENS None (Some (PySet [1]))
             (Some (IdCollection (PyList [1, 2, 3, 4]))) (Some (ChainId 1 ''ethereum'')) [])
     = [(''Pairs in the input dataset'', 5), (''Pairs on chain ethereum'', 5),
        (''Pairs having a good fee'', 4), (''Pairs with candle data'', 3),
        (''Pairs matching exchange'', 3), (''Pairs that are not stable-stable'', 2),
        (''Pairs that are not derivative tokens'', 1),
        (''Pairs that are not rebase tokens'', 1), (''Pairs with good quote token'', 1),
        (''Pairs without blacklisted base token'', 1),
        (''Pairs with clean ASCII token name'', 1)]"
proof -
  let ?steps = "default_steps ext0 (Some 30) (Some (PyList [''SHIB'']))
      DEFAULT_GOOD_QUOTE_TOKENS None (Some (PySet [1]))
      (Some (IdCollection (PyList [1, 2, 3, 4]))) (Some (ChainId 1 ''ethereum''))"
  have uniq: "distinct (map fst table0)"
    by (simp add: table0_def)
  have rows: "map fst (fst (run_steps ?steps table0
                 [(''Pairs in the input dataset'', length table0)])) = [0]"
    by code_simp
  have calls: "snd (run_steps ?steps table0 [(''Pairs in the input dataset'', length table0)])
     = [(''Pairs in the input dataset'', 5), (''Pairs on chain ethereum'', 5),
        (''Pairs having a good fee'', 4), (''Pairs with candle data'', 3),
        (''Pairs matching exchange'', 3), (''Pairs that are not stable-stable'', 2),
        (''Pairs that are not derivative tokens'', 1),
        (''Pairs that are not rebase tokens'', 1), (''Pairs with good quote token'', 1),
        (''Pairs without blacklisted base token'', 1),
        (''Pairs with clean ASCII token name'', 1)]"
    by code_simp
  note inst = default_pipeline_runs_steps_in_order
    [where pairs_df = table0 and candle_ids = "Some (IdCollection (PyList [1, 2, 3, 4]))"
       and blacklist = "Some (PyList [''SHIB''])" and ext = ext0 and max_fee = "Some 30"
       and good_quote = DEFAULT_GOOD_QUOTE_TOKENS and exchanges = None
       and exchange_ids = "Some (PySet [1])" and chain_opt = "Some (ChainId 1 ''ethereum'')",
     OF uniq]
  have eq: "filter_pairs_default ext0 table0 (Some 30) (Some (PyList [''SHIB'']))
             DEFAULT_GOOD_QUOTE_TOKENS None (Some (PySet [1]))
             (Some (IdCollection (PyList [1, 2, 3, 4]))) (Some (ChainId 1 ''ethereum'')) []
         = (Inr (fst (run_steps ?steps table0 [(''Pairs in the input dataset'', length table0)])),
            snd (run_steps ?steps table0 [(''Pairs in the input dataset'', length table0)]))"
    by (rule inst) simp_all
  show ?thesis
    unfolding eq using rows calls by simp
qed

text \<open>
  The sentence of the specification fails for a combination of the optional arguments that the
  signature admits: a blacklist given as a tuple makes \<open>filter_for_blacklisted_tokens\<close>
  fail its type assertion, and the pipeline raises after the quote token step instead
  of returning the frame of the eleven steps.
\<close>

theorem tuple_blacklist_counterexample:
  "fst (filter_pairs_default ext0 table0 (Some 100) (Some (PyTuple [''MKR'']))
          DEFAULT_GOOD_QUOTE_TOKENS None None None None []) = Inl AssertionError
   \<and> map fst (snd (filter_pairs_default ext0 table0 (Some 100) (Some (PyTuple [''MKR'']))
          DEFAULT_GOOD_QUOTE_TOKENS None None None None []))
     = [''Pairs in the input dataset'', ''Pairs having a good fee'',
        ''Pairs that are not stable-stable'', ''Pairs that are not derivative tokens'',
        ''Pairs that are not rebase tokens'', ''Pairs with good quote token'']
   \<and> filter_pairs_default ext0 table0 (Some 100) (Some (PyTuple [''MKR'']))
          DEFAULT_GOOD_QUOTE_TOKENS None None None None []
       \<noteq> (Inr (fst (run_steps
                        (default_steps ext0 (Some 100) (Some (PyTuple [''MKR'']))
                           DEFAULT_GOOD_QUOTE_TOKENS None None None None)
                        table0 [(''Pairs in the input dataset'', length table0)])),
            snd (run_steps
                   (default_steps ext0 (Some 100) (Some (PyTuple [''MKR'']))
                      DEFAULT_GOOD_QUOTE_TOKENS None None None None)
                   table0 [(''Pairs in the input dataset'', length table0)]))"
proof -
  have raised: "fst (filter_pairs_default ext0 table0 (Some 100) (Some (PyTuple [''MKR'']))
          DEFAULT_GOOD_QUOTE_TOKENS None None None None []) = Inl AssertionError"
    by code_simp
  have printed: "map fst (snd (filter_pairs_default ext0 table0 (Some 100)
          (Some (PyTuple [''MKR''])) DEFAULT_GOOD_QUOTE_TOKENS None None None None []))
     = [''Pairs in the input dataset'', ''Pairs having a good fee'',
        ''Pairs that are not stable-stable'', ''Pairs that are not derivative tokens'',
        ''Pairs that are not rebase tokens'', ''Pairs with good quote token'']"
    by code_simp
  have differs: "filter_pairs_default ext0 table0 (Some 100) (Some (PyTuple [''MKR'']))
          DEFAULT_GOOD_QUOTE_TOKENS None None None None [] \<noteq> (Inr d, c)" for d c
    using raised by auto
  show ?thesis
    using raised printed differs by blast
qed

subsection \<open>The fee filter and the fee step\<close>

lemma loc_rows_loc_rows: "loc_rows p (loc_rows q df) = loc_rows (\<lambda>r. q r \<and> p r) df"
  by (simp add: loc_rows_def)

lemma fst_run_steps:
  "fst (run_steps ss df calls) = loc_rows (\<lambda>r. list_all (\<lambda>s. snd s r) ss) df"
proof (induction ss arbitrary: df calls)
  case Nil
  show ?case by (simp add: loc_rows_def)
next
  case (Cons s ss)
  show ?case by (simp add: Let_def Cons.IH loc_rows_loc_rows)
qed

lemma chain_and_fee_steps_with_fee:
  "m \<noteq> 0 \<Longrightarrow>
   chain_and_fee_steps ext (Some m) chain_opt
     = chain_and_fee_steps ext None chain_opt @ [(''Pairs having a good fee'', \<lambda>r. fee r \<le> m)]"
  by (simp add: chain_and_fee_steps_def when_requested_def)

lemma pipeline_fee_step:
  assumes "m \<noteq> 0" and "distinct (map fst pairs_df)"
  shows "fst (filter_pairs_default ext pairs_df (Some m) blacklist good_quote exchanges
                exchange_ids candle_ids chain_opt calls)
         = map_sum id (loc_rows (\<lambda>r. fee r \<le> m))
             (fst (filter_pairs_default ext pairs_df None blacklist good_quote exchanges
                     exchange_ids candle_ids chain_opt calls))"
proof -
  have with_max: "int_bool (Some m) \<and> chain_id_bool ext chain_opt \<longrightarrow> distinct (map fst pairs_df)"
    using assms(2) by simp
  have without: "int_bool None \<and> chain_id_bool ext chain_opt \<longrightarrow> distinct (map fst pairs_df)"
    by simp
  have sel: "loc_rows (\<lambda>r. a r \<and> fee r \<le> m \<and> b r) pairs_df
             = loc_rows (\<lambda>r. fee r \<le> m) (loc_rows (\<lambda>r. a r \<and> b r) pairs_df)" for a b
    unfolding loc_rows_loc_rows by (rule arg_cong [where f = "\<lambda>p. loc_rows p pairs_df"]) auto
  show ?thesis
    unfolding pipeline_outcome [OF with_max] pipeline_outcome [OF without]
    by (simp add: Let_def fst_run_steps chain_and_fee_steps_with_fee [OF assms(1)] sel
        split: sum.splits)
qed

text \<open>
  The model of float arithmetic at the fee arguments where rounding shows: the product
  of the double 0.0003 and 10000 is just below 3, that of the double 0.0007 is exactly 7,
  and that of 0.003 is exactly 30.
\<close>

lemma float_literals:
  "float_literal (3 / 10000) = 5534023222112865 / 18446744073709551616"
  "float_literal (7 / 10000) = 6456360425798343 / 9223372036854775808"
  "float_literal (3 / 1000) = 3458764513820541 / 1152921504606846976"
  by code_simp+

lemma float_products:
  "py_int (float_mul (5534023222112865 / 18446744073709551616) 10000) = 2"
  "py_int (float_mul (6456360425798343 / 9223372036854775808) 10000) = 7"
  "py_int (float_mul (3458764513820541 / 1152921504606846976) 10000) = 30"
  "round_double (3458764513820541 / 1152921504606846976) = 3458764513820541 / 1152921504606846976"
  by code_simp+

lemma float_fee_tiers:
  "py_int (float_mul (float_literal (3 / 10000)) 10000) = 2"
  "py_int (float_mul (float_literal (7 / 10000)) 10000) = 7"
  "py_int (float_mul (float_literal (3 / 1000)) 10000) = 30"
  "is_double (float_literal (3 / 1000))"
  "0 < float_literal (3 / 1000) \<and> float_literal (3 / 1000) < 1"
  unfolding float_literals is_double_def by (simp_all add: float_products)

text \<open>
  C8, as the code has it.  \<open>filter_for_trading_fee\<close> selects one fee tier: for a
  float argument strictly between 0 and 1 it keeps exactly the rows whose fee equals
  \<^verbatim>\<open>int(fee * 10_000)\<close>, the truncated product as float arithmetic computes it, so
  rows with a smaller fee are removed as well as rows with a larger one.  The selection
  of the fees up to a maximum, boundary included, is the fee step of
  \<open>filter_pairs_default\<close>: for a maximum \<open>m\<close> other than 0 (and a table with a unique
  index) the frame it returns is the frame returned without a maximum, restricted to
  the rows with fee at most \<open>m\<close>; a pair whose fee exceeds \<open>m\<close> is removed and a pair
  whose fee is exactly \<open>m\<close> is kept whenever the other steps keep it.
\<close>

theorem fee_filter_is_equality_and_fee_step_is_at_most:
  assumes "is_double f" and "0 < f" and "f < 1" and "m \<noteq> 0" and "distinct (map fst pairs_df)"
  shows "filter_for_trading_fee pairs f
           = Inr (loc_rows (\<lambda>r. fee r = py_int (float_mul f 10000)) pairs)
       \<and> (\<forall>lr. lr \<in> set (loc_rows (\<lambda>r. fee r = py_int (float_mul f 10000)) pairs)
               \<longleftrightarrow> lr \<in> set pairs \<and> fee (snd lr) = py_int (float_mul f 10000))
       \<and> fst (filter_pairs_default ext pairs_df (Some m) blacklist good_quote exchanges
                 exchange_ids candle_ids chain_opt calls)
         = map_sum id (loc_rows (\<lambda>r. fee r \<le> m))
             (fst (filter_pairs_default ext pairs_df None blacklist good_quote exchanges
                     exchange_ids candle_ids chain_opt calls))"
proof -
  have "filter_for_trading_fee pairs f
          = Inr (loc_rows (\<lambda>r. fee r = py_int (float_mul f 10000)) pairs)"
    using assms(2,3) by (simp add: filter_for_trading_fee_def Let_def)
  moreover have "lr \<in> set (loc_rows (\<lambda>r. fee r = py_int (float_mul f 10000)) pairs)
               \<longleftrightarrow> lr \<in> set pairs \<and> fee (snd lr) = py_int (float_mul f 10000)" for lr
    by (auto simp: loc_rows_def)
  ultimately show ?thesis
    using pipeline_fee_step [OF assms(4,5)] by simp
qed

theorem fee_filter_is_equality_and_fee_step_is_at_most_witness:
  "map_sum id (map (\<lambda>lr. (fst lr, fee (snd lr))))
     (filter_for_trading_fee table0 (float_literal (3 / 1000)))
     = Inr [(3, 30), (4, 30)]
   \<and> map_sum id (map (\<lambda>lr. (fst lr, fee (snd lr))))
       (fst (filter_pairs_default ext0 table0 (Some 5) None DEFAULT_GOOD_QUOTE_TOKENS
               None None None None []))
     = Inr [(0, 5)]
   \<and> map_sum id (map (\<lambda>lr. (fst lr, fee (snd lr))))
       (fst (filter_pairs_default ext0 table0 None None DEFAULT_GOOD_QUOTE_TOKENS
               None None None None []))
     = Inr [(0, 5), (1, 100)]"
proof -
  have uniq: "distinct (map fst table0)"
    by (simp add: table0_def)
  have range: "0 < float_literal (3 / 1000)" "float_literal (3 / 1000) < 1"
    using float_fee_tiers(5) by simp_all
  have unbounded: "fst (filter_pairs_default ext0 table0 None None DEFAULT_GOOD_QUOTE_TOKENS
               None None None None [])
     = Inr [(0, mk_row 1 ''WETH'' ''USDC'' 5), (1, mk_row 2 ''SHIB'' ''USDC'' 100)]"
    by code_simp
  have fees: "fee (mk_row p b q x) = x" for p b q x
    by (simp add: mk_row_def)
  note inst = fee_filter_is_equality_and_fee_step_is_at_most
    [where f = "float_literal (3 / 1000)" and m = 5 and pairs_df = table0 and pairs = table0
       and ext = ext0 and blacklist = None and good_quote = DEFAULT_GOOD_QUOTE_TOKENS
       and exchanges = None and exchange_ids = None and candle_ids = None
       and chain_opt = None and calls = "[]",
     OF float_fee_tiers(4) range _ uniq]
  have tier: "filter_for_trading_fee table0 (float_literal (3 / 1000))
                = Inr (loc_rows (\<lambda>r. fee r = 30) table0)"
    using inst by (simp add: float_fee_tiers(3))
  have step: "fst (filter_pairs_default ext0 table0 (Some 5) None DEFAULT_GOOD_QUOTE_TOKENS
                 None None None None [])
         = Inr (loc_rows (\<lambda>r. fee r \<le> 5)
                  [(0, mk_row 1 ''WETH'' ''USDC'' 5), (1, mk_row 2 ''SHIB'' ''USDC'' 100)])"
    using inst by (simp add: unbounded)
  show ?thesis
    by (simp add: tier step unbounded) (simp add: loc_rows_def table0_def fees)
qed

text \<open>
  The sentence of the specification fails for \<open>filter_for_trading_fee\<close>: with the
  argument 0.003 (integer fee 30) the rows with fee 5 and fee 1 are removed, although
  their fee is below 30; only the two rows with fee 30 remain.
\<close>

theorem trading_fee_filter_counterexample:
  "map (\<lambda>lr. (fst lr, fee (snd lr))) table0 = [(0, 5), (1, 100), (2, 1), (3, 30), (4, 30)]
   \<and> py_int (float_mul (float_literal (3 / 1000)) 10000) = 30
   \<and> map_sum id (map (\<lambda>lr. (fst lr, fee (snd lr))))
       (filter_for_trading_fee table0 (float_literal (3 / 1000)))
       = Inr [(3, 30), (4, 30)]
   \<and> map (\<lambda>lr. (fst lr, fee (snd lr))) (filter (\<lambda>lr. fee (snd lr) \<le> 30) table0)
       = [(0, 5), (2, 1), (3, 30), (4, 30)]"
proof -
  have kept: "filter_for_trading_fee table0 (float_literal (3 / 1000))
                = Inr (loc_rows (\<lambda>r. fee r = 30) table0)"
    using float_fee_tiers(5)
    by (simp add: filter_for_trading_fee_def Let_def float_fee_tiers(3))
  show ?thesis
    unfolding kept float_fee_tiers(3)
    by (simp add: loc_rows_def table0_def mk_row_def)
qed

subsection \<open>Steps that are skipped\<close>

lemma length_relabel: "length (relabel h df) = length df"
  by (simp add: relabel_def)

lemma loc_rows_relabel:
  assumes "\<And>r. p (h r) = p r"
  shows "loc_rows p (relabel h df) = relabel h (loc_rows p df)"
  unfolding loc_rows_def relabel_def by (simp add: filter_map o_def assms)

lemma run_steps_relabel:
  assumes "\<And>s r. s \<in> set ss \<Longrightarrow> snd s (h r) = snd s r"
  shows "run_steps ss (relabel h df) calls
         = (relabel h (fst (run_steps ss df calls)), snd (run_steps ss df calls))"
  using assms
proof (induction ss arbitrary: df calls)
  case Nil
  show ?case by simp
next
  case (Cons s ss)
  have here: "loc_rows (snd s) (relabel h df) = relabel h (loc_rows (snd s) df)"
    by (rule loc_rows_relabel) (simp add: Cons.prems)
  have rest: "\<And>s' r. s' \<in> set ss \<Longrightarrow> snd s' (h r) = snd s' r"
    by (simp add: Cons.prems)
  show ?case
    by (simp add: Let_def here length_relabel Cons.IH [OF rest])
qed

text \<open>No step after the fee step reads the fee, and no step but the chain step reads the chain.\<close>

lemma later_steps_ignore_fee_and_chain:
  assumes "s \<in> set (narrowing_steps ext good_quote exchanges exchange_ids candle_ids
                     @ closing_steps ext blacklist)"
  shows "snd s (r\<lparr>fee := x\<rparr>) = snd s r" and "snd s (r\<lparr>chain_id := y\<rparr>) = snd s r"
  using assms
  by (auto simp: narrowing_steps_def closing_steps_def when_requested_def
      both_stablecoin_like_def split: if_splits)

lemma chain_step_ignores_fee:
  assumes "s \<in> set (chain_and_fee_steps ext (Some 0) chain_opt)"
  shows "snd s (r\<lparr>fee := x\<rparr>) = snd s r"
  using assms by (auto simp: chain_and_fee_steps_def when_requested_def split: if_splits)

lemma fee_step_ignores_chain:
  assumes "s \<in> set (chain_and_fee_steps ext max_fee None)"
  shows "snd s (r\<lparr>chain_id := y\<rparr>) = snd s r"
  using assms by (auto simp: chain_and_fee_steps_def when_requested_def split: if_splits)

lemma pipeline_commutes_with_relabel:
  assumes skip: "\<not> (int_bool max_fee \<and> chain_id_bool ext chain_opt)"
    and early: "\<And>s r. s \<in> set (chain_and_fee_steps ext max_fee chain_opt) \<Longrightarrow> snd s (h r) = snd s r"
    and later: "\<And>s r. s \<in> set (narrowing_steps ext good_quote exchanges exchange_ids candle_ids
                                  @ closing_steps ext blacklist) \<Longrightarrow> snd s (h r) = snd s r"
  shows "filter_pairs_default ext (relabel h pairs_df) max_fee blacklist good_quote exchanges
           exchange_ids candle_ids chain_opt calls
         = map_prod (map_sum id (relabel h)) id
             (filter_pairs_default ext pairs_df max_fee blacklist good_quote exchanges
                exchange_ids candle_ids chain_opt calls)"
proof -
  have uniq: "int_bool max_fee \<and> chain_id_bool ext chain_opt \<longrightarrow> distinct (map fst df)" for df
    using skip by blast
  have e: "run_steps (chain_and_fee_steps ext max_fee chain_opt) (relabel h pairs_df) c
      = (relabel h (fst (run_steps (chain_and_fee_steps ext max_fee chain_opt) pairs_df c)),
         snd (run_steps (chain_and_fee_steps ext max_fee chain_opt) pairs_df c))" for c
    by (rule run_steps_relabel) (rule early)
  have m: "run_steps (chain_and_fee_steps ext max_fee chain_opt
                      @ narrowing_steps ext good_quote exchanges exchange_ids candle_ids)
             (relabel h pairs_df) c
      = (relabel h (fst (run_steps (chain_and_fee_steps ext max_fee chain_opt
                      @ narrowing_steps ext good_quote exchanges exchange_ids candle_ids)
                      pairs_df c)),
         snd (run_steps (chain_and_fee_steps ext max_fee chain_opt
                      @ narrowing_steps ext good_quote exchanges exchange_ids candle_ids)
                      pairs_df c))" for c
  proof (rule run_steps_relabel)
    fix s r
    assume "s \<in> set (chain_and_fee_steps ext max_fee chain_opt
                      @ narrowing_steps ext good_quote exchanges exchange_ids candle_ids)"
    then consider "s \<in> set (chain_and_fee_steps ext max_fee chain_opt)"
      | "s \<in> set (narrowing_steps ext good_quote exchanges exchange_ids candle_ids
                     @ closing_steps ext blacklist)"
      by auto
    then show "snd s (h r) = snd s r"
      by cases (rule early, assumption, rule later, assumption)
  qed
  have a: "run_steps (chain_and_fee_steps ext max_fee chain_opt
                      @ narrowing_steps ext good_quote exchanges exchange_ids candle_ids
                      @ closing_steps ext blacklist)
             (relabel h pairs_df) c
      = (relabel h (fst (run_steps (chain_and_fee_steps ext max_fee chain_opt
                      @ narrowing_steps ext good_quote exchanges exchange_ids candle_ids
                      @ closing_steps ext blacklist) pairs_df c)),
         snd (run_steps (chain_and_fee_steps ext max_fee chain_opt
                      @ narrowing_steps ext good_quote exchanges exchange_ids candle_ids
                      @ closing_steps ext blacklist) pairs_df c))" for c
  proof (rule run_steps_relabel)
    fix s r
    assume "s \<in> set (chain_and_fee_steps ext max_fee chain_opt
                      @ narrowing_steps ext good_quote exchanges exchange_ids candle_ids
                      @ closing_steps ext blacklist)"
    then consider "s \<in> set (chain_and_fee_steps ext max_fee chain_opt)"
      | "s \<in> set (narrowing_steps ext good_quote exchanges exchange_ids candle_ids
                     @ closing_steps ext blacklist)"
      by auto
    then show "snd s (h r) = snd s r"
      by cases (rule early, assumption, rule later, assumption)
  qed
  show ?thesis
    unfolding pipeline_outcome [OF uniq]
    by (simp add: Let_def length_relabel e m a split: sum.splits)
qed

text \<open>
  C10.  With \<open>max_trading_pair_fee_bps = 0\<close> the pipeline does exactly what it does
  without a maximum: the same frame and the same reports, none of them for a fee step.
  No fee filtering takes place: giving the rows of the input any other fees changes
  nothing in the outcome but the fees of the rows returned, so pairs of every fee tier
  remain.  Likewise, without a \<open>chain_id\<close> the chain filter is skipped: giving the rows
  any other chain identifiers changes nothing but the chain identifiers of the rows
  returned.
\<close>

theorem zero_max_fee_and_absent_chain_skip_their_steps:
  "filter_pairs_default ext pairs_df (Some 0) blacklist good_quote exchanges exchange_ids
     candle_ids chain_opt
   = filter_pairs_default ext pairs_df None blacklist good_quote exchanges exchange_ids
       candle_ids chain_opt
   \<and> filter_pairs_default ext (relabel (\<lambda>r. r\<lparr>fee := g r\<rparr>) pairs_df) (Some 0) blacklist
       good_quote exchanges exchange_ids candle_ids chain_opt calls
     = map_prod (map_sum id (relabel (\<lambda>r. r\<lparr>fee := g r\<rparr>))) id
         (filter_pairs_default ext pairs_df (Some 0) blacklist good_quote exchanges
            exchange_ids candle_ids chain_opt calls)
   \<and> filter_pairs_default ext (relabel (\<lambda>r. r\<lparr>chain_id := k r\<rparr>) pairs_df) max_fee blacklist
       good_quote exchanges exchange_ids candle_ids None calls
     = map_prod (map_sum id (relabel (\<lambda>r. r\<lparr>chain_id := k r\<rparr>))) id
         (filter_pairs_default ext pairs_df max_fee blacklist good_quote exchanges
            exchange_ids candle_ids None calls)"
proof (intro conjI)
  show "filter_pairs_default ext pairs_df (Some 0) blacklist good_quote exchanges exchange_ids
     candle_ids chain_opt
   = filter_pairs_default ext pairs_df None blacklist good_quote exchanges exchange_ids
       candle_ids chain_opt"
    by (simp add: filter_pairs_default_def)
next
  show "filter_pairs_default ext (relabel (\<lambda>r. r\<lparr>fee := g r\<rparr>) pairs_df) (Some 0) blacklist
       good_quote exchanges exchange_ids candle_ids chain_opt calls
     = map_prod (map_sum id (relabel (\<lambda>r. r\<lparr>fee := g r\<rparr>))) id
         (filter_pairs_default ext pairs_df (Some 0) blacklist good_quote exchanges
            exchange_ids candle_ids chain_opt calls)"
    by (rule pipeline_commutes_with_relabel)
       (simp_all add: chain_step_ignores_fee later_steps_ignore_fee_and_chain)
next
  show "filter_pairs_default ext (relabel (\<lambda>r. r\<lparr>chain_id := k r\<rparr>) pairs_df) max_fee blacklist
       good_quote exchanges exchange_ids candle_ids None calls
     = map_prod (map_sum id (relabel (\<lambda>r. r\<lparr>chain_id := k r\<rparr>))) id
         (filter_pairs_default ext pairs_df max_fee blacklist good_quote exchanges
            exchange_ids candle_ids None calls)"
    by (rule pipeline_commutes_with_relabel)
       (simp_all add: fee_step_ignores_chain later_steps_ignore_fee_and_chain)
qed

theorem zero_max_fee_and_absent_chain_skip_their_steps_witness:
  "map_sum id (map (\<lambda>lr. (fst lr, fee (snd lr))))
     (fst (filter_pairs_default ext0 table0 (Some 0) None DEFAULT_GOOD_QUOTE_TOKENS
             None None None None []))
     = Inr [(0, 5), (1, 100)]
   \<and> snd (filter_pairs_default ext0 table0 (Some 0) None DEFAULT_GOOD_QUOTE_TOKENS
             None None None None [])
     = [(''Pairs in the input dataset'', 5), (''Pairs that are not stable-stable'', 4),
        (''Pairs that are not derivative tokens'', 3),
        (''Pairs that are not rebase tokens'', 2), (''Pairs with good quote token'', 2),
        (''Pairs with clean ASCII token name'', 2)]"
proof -
  have rows: "map_sum id (map (\<lambda>lr. (fst lr, fee (snd lr))))
     (fst (filter_pairs_default ext0 table0 None None DEFAULT_GOOD_QUOTE_TOKENS
             None None None None []))
     = Inr [(0, 5), (1, 100)]"
    by code_simp
  have calls: "snd (filter_pairs_default ext0 table0 None None DEFAULT_GOOD_QUOTE_TOKENS
             None None None None [])
     = [(''Pairs in the input dataset'', 5), (''Pairs that are not stable-stable'', 4),
        (''Pairs that are not derivative tokens'', 3),
        (''Pairs that are not rebase tokens'', 2), (''Pairs with good quote token'', 2),
        (''Pairs with clean ASCII token name'', 2)]"
    by code_simp
  note inst = zero_max_fee_and_absent_chain_skip_their_steps
    [where ext = ext0 and pairs_df = table0 and blacklist = None
       and good_quote = DEFAULT_GOOD_QUOTE_TOKENS and exchanges = None and exchange_ids = None
       and candle_ids = None and chain_opt = None, THEN conjunct1]
  show ?thesis
    unfolding inst using rows calls by (rule conjI)
qed

end
